theory Spec2Isabelle
  imports Main
begin

section \<open>JavaScript values and HTTP responses\<close>

text \<open>
  The backend is JavaScript on Express and Mongoose. Values that the code tests for
  truthiness are optional strings here: \<open>None\<close> is \<^verbatim>\<open>undefined\<close>, and the empty
  string is the only falsy string. Objects and arrays are always truthy.
\<close>

definition truthy :: "string option \<Rightarrow> bool" where
  "truthy v = (case v of None \<Rightarrow> False | Some s \<Rightarrow> s \<noteq> [])"

text \<open>The string held by a value already known to be a truthy string.\<close>

definition stringOf :: "string option \<Rightarrow> string" where
  "stringOf v = (case v of None \<Rightarrow> [] | Some s \<Rightarrow> s)"

text \<open>A JSON body as \<^verbatim>\<open>res.json({...})\<close> sends it: the keys in the order written.\<close>

datatype json =
  JNull
  | JBool bool
  | JNum int
  | JStr string
  | JArr "json list"
  | JObj "(string \<times> json) list"

record response =
  status :: nat
  body :: "(string \<times> json) list"

text \<open>
  A value of a request body is any JSON value (\<open>None\<close>: the key is absent). Its
  truthiness, its \<^verbatim>\<open>typeof\<close>, and the string it is when it is one.
\<close>

definition jsTruthy :: "json option \<Rightarrow> bool" where
  "jsTruthy v =
     (case v of
        None \<Rightarrow> False
      | Some JNull \<Rightarrow> False
      | Some (JBool b) \<Rightarrow> b
      | Some (JNum n) \<Rightarrow> n \<noteq> 0
      | Some (JStr s) \<Rightarrow> s \<noteq> []
      | Some (JArr xs) \<Rightarrow> True
      | Some (JObj kvs) \<Rightarrow> True)"

definition typeofJson :: "json \<Rightarrow> string" where
  "typeofJson v =
     (case v of
        JNull \<Rightarrow> ''object''
      | JBool b \<Rightarrow> ''boolean''
      | JNum n \<Rightarrow> ''number''
      | JStr s \<Rightarrow> ''string''
      | JArr xs \<Rightarrow> ''object''
      | JObj kvs \<Rightarrow> ''object'')"

definition jsonString :: "json option \<Rightarrow> string" where
  "jsonString v = (case v of Some (JStr s) \<Rightarrow> s | _ \<Rightarrow> [])"

text \<open>\<^verbatim>\<open>JSON.stringify\<close> leaves out a key whose value is \<^verbatim>\<open>undefined\<close> or a function.\<close>

definition optField :: "string \<Rightarrow> json option \<Rightarrow> (string \<times> json) list" where
  "optField k v = (case v of None \<Rightarrow> [] | Some x \<Rightarrow> [(k, x)])"

definition failure :: "nat \<Rightarrow> string \<Rightarrow> response" where
  "failure code msg = \<lparr>status = code, body = [(''success'', JBool False), (''message'', JStr msg)]\<rparr>"

text \<open>\<^verbatim>\<open>s.split(sep)\<close> for a one-character separator, and \<^verbatim>\<open>xs[i]\<close> (undefined out of range).\<close>

fun splitOn :: "char \<Rightarrow> string \<Rightarrow> string list" where
  "splitOn sep [] = [[]]"
| "splitOn sep (c # cs) =
     (if c = sep then [] # splitOn sep cs
      else (case splitOn sep cs of [] \<Rightarrow> [[c]] | w # ws \<Rightarrow> (c # w) # ws))"

fun nthOpt :: "'a list \<Rightarrow> nat \<Rightarrow> 'a option" where
  "nthOpt [] i = None"
| "nthOpt (x # xs) 0 = Some x"
| "nthOpt (x # xs) (Suc i) = nthOpt xs i"

fun joinWith :: "string \<Rightarrow> string list \<Rightarrow> string" where
  "joinWith sep [] = []"
| "joinWith sep [x] = x"
| "joinWith sep (x # y # ys) = x @ sep @ joinWith sep (y # ys)"

text \<open>The ASCII characters of the regular expression class \<^verbatim>\<open>\s\<close>.\<close>

definition isSpace :: "char \<Rightarrow> bool" where
  "isSpace c = (c \<in> set [CHR '' '', CHR 0x09, CHR 0x0A, CHR 0x0B, CHR 0x0C, CHR 0x0D])"

text \<open>\<^verbatim>\<open>toLowerCase\<close> and \<^verbatim>\<open>trim\<close>, on ASCII letters and ASCII white space.\<close>

definition toLowerChar :: "char \<Rightarrow> char" where
  "toLowerChar c =
     (if (65::nat) \<le> of_char c \<and> of_char c \<le> (90::nat) then char_of (of_char c + (32::nat)) else c)"

definition toLowerCase :: "string \<Rightarrow> string" where
  "toLowerCase s = map toLowerChar s"

definition trim :: "string \<Rightarrow> string" where
  "trim s = rev (dropWhile isSpace (rev (dropWhile isSpace s)))"

text \<open>
  A property read \<^verbatim>\<open>obj[key]\<close> with a computed key on an object literal finds the
  object's own keys first and then the properties every object inherits from
  \<^verbatim>\<open>Object.prototype\<close>, whose values are functions (or the prototype object itself):
  truthy, and not arrays.
\<close>

definition objectPrototypeKeys :: "string list" where
  "objectPrototypeKeys =
     [''constructor'', ''__proto__'', ''hasOwnProperty'', ''isPrototypeOf'',
      ''propertyIsEnumerable'', ''toLocaleString'', ''toString'', ''valueOf'',
      ''__defineGetter__'', ''__defineSetter__'', ''__lookupGetter__'', ''__lookupSetter__'']"

datatype 'a property = Own 'a | Inherited | Absent

definition getProperty :: "(string \<times> 'a) list \<Rightarrow> string \<Rightarrow> 'a property" where
  "getProperty obj k =
     (case map_of obj k of
        Some v \<Rightarrow> Own v
      | None \<Rightarrow> if k \<in> set objectPrototypeKeys then Inherited else Absent)"

text \<open>The key that a possibly undefined string becomes in \<^verbatim>\<open>obj[key]\<close>.\<close>

definition propertyKey :: "string option \<Rightarrow> string" where
  "propertyKey v = (case v of None \<Rightarrow> ''undefined'' | Some s \<Rightarrow> s)"

section \<open>Role policy table (config/roles.js)\<close>

definition rolePermissions :: "(string \<times> string list) list" where
  "rolePermissions =
     [(''admin'', [''view_credentials'', ''create_credentials'', ''edit_credentials'',
                   ''delete_credentials'', ''manage_users'', ''view_reports'', ''system_settings'']),
      (''mitra'', [''view_credentials'', ''create_credentials'', ''edit_credentials'', ''view_reports'']),
      (''perawat'', [''view_credentials'', ''create_credentials''])]"

definition roleHierarchy :: "(string \<times> nat) list" where
  "roleHierarchy = [(''perawat'', 1), (''mitra'', 2), (''admin'', 3)]"

definition roleRedirects :: "(string \<times> string) list" where
  "roleRedirects =
     [(''admin'', ''/dashboard-kepala-unit''),
      (''mitra'', ''/dashboard-mitra-bestari''),
      (''perawat'', ''/dashboard-perawat'')]"

text \<open>
  \<^verbatim>\<open>getRolePermissions(role) = rolePermissions[role] || []\<close>: the permission set the
  table gives a role, empty for a role the table does not list.
\<close>

definition getRolePermissions :: "string \<Rightarrow> string list" where
  "getRolePermissions r = (case map_of rolePermissions r of None \<Rightarrow> [] | Some ps \<Rightarrow> ps)"

text \<open>
  \<^verbatim>\<open>getRoleRedirectUrl(role) = roleRedirects[role] || "/"\<close>, as the JSON body shows it:
  an inherited function is not serialised, the prototype object is \<^verbatim>\<open>{}\<close>.
\<close>

definition getRoleRedirectUrl :: "string option \<Rightarrow> json option" where
  "getRoleRedirectUrl r =
     (case getProperty roleRedirects (propertyKey r) of
        Own url \<Rightarrow> Some (JStr url)
      | Absent \<Rightarrow> Some (JStr ''/'')
      | Inherited \<Rightarrow> if propertyKey r = ''__proto__'' then Some (JObj []) else None)"

section \<open>User documents (models/user.js)\<close>

text \<open>
  A document of the \<^verbatim>\<open>User\<close> collection, typed as the Mongoose schema types it.
  \<open>oid\<close> is MongoDB's \<^verbatim>\<open>_id\<close> and \<open>uid\<close> the schema's own \<^verbatim>\<open>id\<close> (a uuid);
  an absent \<^verbatim>\<open>npk\<close>, \<^verbatim>\<open>unit\<close> or \<^verbatim>\<open>lastLogin\<close> is \<open>None\<close>. The \<open>password\<close> path holds
  the bcrypt hash and is declared \<^verbatim>\<open>select: false\<close>: a query that does not ask for it
  returns the document with the path empty (\<open>hidePassword\<close>). Times are milliseconds.
\<close>

record user_doc =
  oid :: string
  uid :: string
  username :: string
  fullName :: string
  email :: string
  password :: string
  npk :: "string option"
  role :: string
  permissions :: "string list"
  unit :: "string option"
  isActive :: bool
  lastLogin :: "nat option"
  createdAt :: nat
  updatedAt :: nat

definition hidePassword :: "user_doc \<Rightarrow> user_doc" where
  "hidePassword d = d\<lparr>password := []\<rparr>"

subsection \<open>Schema validators\<close>

definition isDigit :: "char \<Rightarrow> bool" where
  "isDigit c = (c \<in> set ''0123456789'')"

text \<open>\<^verbatim>\<open>/^NPK\d{4}$/.test(v)\<close>\<close>

definition npkFormat :: "string \<Rightarrow> bool" where
  "npkFormat v = (length v = 7 \<and> take 3 v = ''NPK'' \<and> list_all isDigit (drop 3 v))"

text \<open>
  \<^verbatim>\<open>/^[^\s@]+@[^\s@]+\.[^\s@]+$/.test(email)\<close>: exactly one \<^verbatim>\<open>@\<close>, no white space, a
  non-empty local part, and a dot strictly inside the part after the \<^verbatim>\<open>@\<close>.
\<close>

definition emailFormat :: "string \<Rightarrow> bool" where
  "emailFormat e =
     (case splitOn CHR ''@'' e of
        [a, b] \<Rightarrow> a \<noteq> [] \<and> \<not> list_ex isSpace a \<and> \<not> list_ex isSpace b
                  \<and> CHR ''.'' \<in> set (butlast (tl b))
      | _ \<Rightarrow> False)"

definition roleEnum :: "string list" where
  "roleEnum = [''admin'', ''mitra'', ''perawat'', ''kepala-unit'']"

definition permissionEnum :: "string list" where
  "permissionEnum =
     [''view_credentials'', ''create_credentials'', ''edit_credentials'', ''delete_credentials'',
      ''manage_users'', ''view_reports'', ''system_settings'']"

text \<open>
  The paths whose validators fail, in schema order. \<open>withPassword\<close> says whether the
  \<open>password\<close> path is validated: it is for a new document and skipped for a loaded
  one whose password was neither selected nor modified. \<^verbatim>\<open>required\<close> rejects an absent
  or empty string; the other validators run on a value that is present.
\<close>

definition validationErrors :: "bool \<Rightarrow> user_doc \<Rightarrow> string list" where
  "validationErrors withPassword d =
     (if length (username d) < 3 \<or> 30 < length (username d) then [''username''] else [])
     @ (if 100 < length (fullName d) then [''fullName''] else [])
     @ (if emailFormat (email d) then [] else [''email''])
     @ (if withPassword \<and> length (password d) < 8 then [''password''] else [])
     @ (if (role d = ''perawat'' \<and> \<not> truthy (npk d))
           \<or> (case npk d of None \<Rightarrow> False | Some v \<Rightarrow> \<not> npkFormat v)
        then [''npk''] else [])
     @ (if role d \<in> set roleEnum then [] else [''role''])
     @ (if list_all (\<lambda>p. p \<in> set permissionEnum) (permissions d) then [] else [''permissions''])
     @ (if (role d = ''perawat'' \<or> role d = ''kepala-unit'') \<and> \<not> truthy (unit d)
        then [''unit''] else [])"

text \<open>
  The unique indexes (\<^verbatim>\<open>id\<close>, \<^verbatim>\<open>username\<close>, \<^verbatim>\<open>email\<close>, and the sparse one on \<^verbatim>\<open>npk\<close>).
  A write can collide only on an index whose path it writes: \<open>paths\<close> are the paths
  written, and the result is the first of their indexes on which another document of
  the collection has the value of \<open>d\<close>.
\<close>

definition duplicateKey :: "string list \<Rightarrow> user_doc list \<Rightarrow> user_doc \<Rightarrow> string option" where
  "duplicateKey paths store d =
     (let others = filter (\<lambda>x. oid x \<noteq> oid d) store in
      if ''id'' \<in> set paths \<and> list_ex (\<lambda>x. uid x = uid d) others then Some ''id''
      else if ''username'' \<in> set paths \<and> list_ex (\<lambda>x. username x = username d) others
      then Some ''username''
      else if ''email'' \<in> set paths \<and> list_ex (\<lambda>x. email x = email d) others then Some ''email''
      else if ''npk'' \<in> set paths \<and> npk d \<noteq> None \<and> list_ex (\<lambda>x. npk x = npk d) others
      then Some ''npk''
      else None)"

subsection \<open>The pre-save hook that assigns an npk\<close>

fun strLess :: "string \<Rightarrow> string \<Rightarrow> bool" where
  "strLess [] [] = False"
| "strLess [] (y # ys) = True"
| "strLess (x # xs) [] = False"
| "strLess (x # xs) (y # ys) = ((of_char x :: nat) < of_char y \<or> (x = y \<and> strLess xs ys))"

text \<open>
  \<^verbatim>\<open>findOne({role: "perawat", npk: {$regex: /^NPK\d{4}$/}}, {npk: 1}, {sort: {npk: -1}})\<close>:
  the nurse whose npk is greatest in string order.
\<close>

definition hasNpkFormat :: "user_doc \<Rightarrow> bool" where
  "hasNpkFormat d = (case npk d of None \<Rightarrow> False | Some v \<Rightarrow> npkFormat v)"

definition npkOf :: "user_doc \<Rightarrow> string" where
  "npkOf d = (case npk d of None \<Rightarrow> [] | Some v \<Rightarrow> v)"

definition lastNurse :: "user_doc list \<Rightarrow> user_doc option" where
  "lastNurse store =
     fold (\<lambda>d best. case best of
                       None \<Rightarrow> Some d
                     | Some b \<Rightarrow> if strLess (npkOf b) (npkOf d) then Some d else Some b)
          (filter (\<lambda>d. role d = ''perawat'' \<and> hasNpkFormat d) store) None"

text \<open>\<^verbatim>\<open>s.replace(pat, rep)\<close> with a string pattern replaces the first occurrence.\<close>

primrec replaceFirst :: "string \<Rightarrow> string \<Rightarrow> string \<Rightarrow> string" where
  "replaceFirst pat rep [] = (if pat = [] then rep else [])"
| "replaceFirst pat rep (c # cs) =
     (if take (length pat) (c # cs) = pat then rep @ drop (length pat) (c # cs)
      else c # replaceFirst pat rep cs)"

definition digitValue :: "char \<Rightarrow> nat" where
  "digitValue c = of_char c - 48"

text \<open>
  \<^verbatim>\<open>parseInt(s, 10)\<close>: leading white space, an optional sign, then the longest run
  of decimal digits; \<open>None\<close> is \<^verbatim>\<open>NaN\<close>.
\<close>

definition parseInt10 :: "string \<Rightarrow> int option" where
  "parseInt10 s =
     (let t = dropWhile isSpace s;
          neg = (case t of [] \<Rightarrow> False | c # _ \<Rightarrow> c = CHR ''-'');
          r = (case t of [] \<Rightarrow> [] | c # cs \<Rightarrow> if c = CHR ''-'' \<or> c = CHR ''+'' then cs else t);
          ds = takeWhile isDigit r
      in if ds = [] then None
         else Some ((if neg then - 1 else 1) * int (foldl (\<lambda>acc c. 10 * acc + digitValue c) 0 ds)))"

fun showNat :: "nat \<Rightarrow> string" where
  "showNat n = (if n < 10 then [''0123456789'' ! n] else showNat (n div 10) @ [''0123456789'' ! (n mod 10)])"

declare showNat.simps [simp del]

text \<open>\<^verbatim>\<open>n.toString()\<close> of an integer or \<^verbatim>\<open>NaN\<close>, and \<^verbatim>\<open>s.padStart(w, c)\<close>.\<close>

definition numberToString :: "int option \<Rightarrow> string" where
  "numberToString v =
     (case v of
        None \<Rightarrow> ''NaN''
      | Some i \<Rightarrow> if i < 0 then CHR ''-'' # showNat (nat (- i)) else showNat (nat i))"

definition padStart :: "nat \<Rightarrow> char \<Rightarrow> string \<Rightarrow> string" where
  "padStart w c s = replicate (w - length s) c @ s"

text \<open>
  The second \<^verbatim>\<open>pre("save")\<close> hook of the schema. Its last statement is
  \<^verbatim>\<open>this.npk = `${nextNumber.toString().padStart(4, "0")}`\<close>.
\<close>

definition preSaveNpk :: "user_doc list \<Rightarrow> user_doc \<Rightarrow> user_doc" where
  "preSaveNpk store this =
     (if role this = ''perawat'' \<and> \<not> truthy (npk this) then
        let nextNumber =
              (case lastNurse store of
                 None \<Rightarrow> Some 1
               | Some nurse \<Rightarrow>
                   if truthy (npk nurse)
                   then map_option (\<lambda>lastNumber. lastNumber + 1)
                          (parseInt10 (replaceFirst ''NPK'' [] (npkOf nurse)))
                   else Some 1)
        in this\<lparr>npk := Some (padStart 4 CHR ''0'' (numberToString nextNumber))\<rparr>
      else this)"

text \<open>
  The sibling batch repair \<^verbatim>\<open>generateMissingNPKs\<close> writes
  \<^verbatim>\<open>`NPK${(nextNumber + index).toString().padStart(4, "0")}`\<close> for the nurse at \<open>index\<close>.
\<close>

definition repairedNpk :: "int \<Rightarrow> nat \<Rightarrow> string" where
  "repairedNpk nextNumber index = ''NPK'' @ padStart 4 CHR ''0'' (numberToString (Some (nextNumber + int index)))"

subsection \<open>Saving a loaded document\<close>

datatype dbError =
  ValidationError "string list"
  | DuplicateKey string
  | DocumentNotFound
  | CastError string

text \<open>
  \<^verbatim>\<open>doc.save()\<close> on a document loaded from the collection, as the methods below and
  the login call it: the caller has modified \<open>lastLogin\<close> or \<open>isActive\<close>, and neither the
  password nor a uniquely indexed path. Mongoose validates first (its own
  \<^verbatim>\<open>pre("save")\<close> hook runs before the schema's), then runs the schema's hooks (the
  password hook returns at once, the npk hook is \<open>preSaveNpk\<close>), then writes the
  document over the stored one with the same \<^verbatim>\<open>_id\<close>, keeping the stored password;
  \<^verbatim>\<open>timestamps: true\<close> stamps \<open>updatedAt\<close>. Only an npk that the hook has assigned can
  collide on a unique index.
\<close>

definition save :: "nat \<Rightarrow> user_doc list \<Rightarrow> user_doc \<Rightarrow> dbError + (user_doc \<times> user_doc list)" where
  "save now store this =
     (case validationErrors False this of
        e # es \<Rightarrow> Inl (ValidationError (e # es))
      | [] \<Rightarrow>
         (let doc = (preSaveNpk store this)\<lparr>updatedAt := now\<rparr> in
          case duplicateKey (if npk doc = npk this then [] else [''npk'']) store doc of
            Some k \<Rightarrow> Inl (DuplicateKey k)
          | None \<Rightarrow>
             if list_ex (\<lambda>d. oid d = oid doc) store
             then Inr (doc, map (\<lambda>d. if oid d = oid doc then doc\<lparr>password := password d\<rparr> else d) store)
             else Inl DocumentNotFound))"

subsection \<open>Statics and methods\<close>

text \<open>
  Mongoose casts the value of an \<^verbatim>\<open>_id\<close> condition to an ObjectId before it sends the
  query, inside \<^verbatim>\<open>$or\<close> as well: a string of 24 hexadecimal digits is the ObjectId it
  spells (in lower case), and for any other string the query throws a CastError. The
  conditions on the other paths pass through the setters of the schema: \<^verbatim>\<open>trim\<close> for
  \<^verbatim>\<open>username\<close>, \<^verbatim>\<open>lowercase\<close> and \<^verbatim>\<open>trim\<close> for \<^verbatim>\<open>email\<close>, none for \<^verbatim>\<open>id\<close>.
\<close>

definition isHexDigit :: "char \<Rightarrow> bool" where
  "isHexDigit c = (c \<in> set ''0123456789abcdefABCDEF'')"

definition castObjectId :: "string \<Rightarrow> string option" where
  "castObjectId i = (if length i = 24 \<and> list_all isHexDigit i then Some (toLowerCase i) else None)"

text \<open>\<^verbatim>\<open>User.findById(id)\<close>\<close>

definition findById :: "user_doc list \<Rightarrow> string \<Rightarrow> dbError + user_doc option" where
  "findById store i =
     (case castObjectId i of
        None \<Rightarrow> Inl (CastError ''_id'')
      | Some objectId \<Rightarrow> Inr (map_option hidePassword (find (\<lambda>d. oid d = objectId) store)))"

definition findByUsername :: "user_doc list \<Rightarrow> string \<Rightarrow> user_doc option" where
  "findByUsername store name =
     map_option hidePassword (find (\<lambda>d. username d = trim name \<and> isActive d) store)"

definition findByEmail :: "user_doc list \<Rightarrow> string \<Rightarrow> bool \<Rightarrow> user_doc option" where
  "findByEmail store e includePassword =
     map_option (if includePassword then (\<lambda>d. d) else hidePassword)
       (find (\<lambda>d. email d = trim (toLowerCase e) \<and> isActive d) store)"

text \<open>
  \<^verbatim>\<open>findActiveById(id)\<close>: the filter is \<^verbatim>\<open>{$or: [{_id: id}, {id: id}], isActive: true}\<close>,
  and a cast error is thrown on as \<^verbatim>\<open>Error("Failed to find user: ...")\<close>.
\<close>

definition findActiveById :: "user_doc list \<Rightarrow> string \<Rightarrow> dbError + user_doc option" where
  "findActiveById store i =
     (case castObjectId i of
        None \<Rightarrow> Inl (CastError ''_id'')
      | Some objectId \<Rightarrow>
          Inr (map_option hidePassword
                 (find (\<lambda>d. (oid d = objectId \<or> uid d = i) \<and> isActive d) store)))"

definition updateLastLogin :: "nat \<Rightarrow> user_doc list \<Rightarrow> user_doc \<Rightarrow> dbError + (user_doc \<times> user_doc list)" where
  "updateLastLogin now store this = save now store (this\<lparr>lastLogin := Some now\<rparr>)"

definition softDelete :: "nat \<Rightarrow> user_doc list \<Rightarrow> user_doc \<Rightarrow> dbError + (user_doc \<times> user_doc list)" where
  "softDelete now store this = save now store (this\<lparr>isActive := False\<rparr>)"

text \<open>
  \<^verbatim>\<open>bcrypt.compare(candidate, hash)\<close> of bcryptjs: the promise is rejected with
  "Illegal arguments: ..." when the candidate is not a string; for a string it is the
  hashing primitive's verify function \<open>bcryptCompare\<close>.
\<close>

definition bcryptCall :: "(string \<Rightarrow> string \<Rightarrow> bool) \<Rightarrow> json \<Rightarrow> string \<Rightarrow> string + bool" where
  "bcryptCall bcryptCompare candidate hash =
     (case candidate of
        JStr s \<Rightarrow> Inr (bcryptCompare s hash)
      | _ \<Rightarrow> Inl (''Illegal arguments: '' @ typeofJson candidate @ '', string''))"

text \<open>
  \<^verbatim>\<open>comparePassword\<close>: when the hash was not loaded it is fetched by \<^verbatim>\<open>_id\<close>; a
  document with no hash makes the method throw "Failed to compare passwords". The
  method returns the promise of \<^verbatim>\<open>bcrypt.compare\<close> without awaiting it, so a
  rejection of that promise is not wrapped. \<open>Inl\<close> holds the message of the error.
\<close>

definition comparePassword ::
  "(string \<Rightarrow> string \<Rightarrow> bool) \<Rightarrow> user_doc list \<Rightarrow> user_doc \<Rightarrow> json \<Rightarrow> string + bool" where
  "comparePassword bcryptCompare store this candidatePassword =
     (if password this = [] then
        (case find (\<lambda>d. oid d = oid this) store of
           None \<Rightarrow> Inl ''Failed to compare passwords''
         | Some userWithPassword \<Rightarrow>
             if password userWithPassword = [] then Inl ''Failed to compare passwords''
             else bcryptCall bcryptCompare candidatePassword (password userWithPassword))
      else bcryptCall bcryptCompare candidatePassword (password this))"

subsection \<open>updateUser\<close>

text \<open>
  A patch is a JavaScript object: keys with values, each value a string, a boolean, a
  non-negative integer or a list of strings.
\<close>

datatype fieldValue = VStr string | VBool bool | VNum nat | VList "string list"

definition allowedUpdates :: "string list" where
  "allowedUpdates =
     [''username'', ''email'', ''fullName'', ''role'', ''unit'', ''npk'', ''permissions'', ''isActive'']"

text \<open>
  Mongoose casts each value of an update to the type of its schema path. A string path
  takes a string, and the text of a boolean or a number; a boolean path takes a
  boolean, the numbers 1 and 0 and the strings "true", "1", "yes", "false", "0", "no";
  an array of strings takes a list, and wraps a single value into a list of one; a date
  path takes a number of milliseconds, the empty string as \<^verbatim>\<open>null\<close>, and any other
  string or list as the JavaScript engine reads it as a date (\<open>dateOfString\<close>, of the
  list's text). \<open>None\<close> is a cast error.
\<close>

definition castString :: "fieldValue \<Rightarrow> string option" where
  "castString v =
     (case v of
        VStr s \<Rightarrow> Some s
      | VBool b \<Rightarrow> Some (if b then ''true'' else ''false'')
      | VNum n \<Rightarrow> Some (showNat n)
      | VList xs \<Rightarrow> None)"

definition castBoolean :: "fieldValue \<Rightarrow> bool option" where
  "castBoolean v =
     (case v of
        VBool b \<Rightarrow> Some b
      | VNum n \<Rightarrow> if n = 1 then Some True else if n = 0 then Some False else None
      | VStr s \<Rightarrow>
          if s \<in> set [''true'', ''1'', ''yes''] then Some True
          else if s \<in> set [''false'', ''0'', ''no''] then Some False
          else None
      | VList xs \<Rightarrow> None)"

definition castStrings :: "fieldValue \<Rightarrow> string list option" where
  "castStrings v =
     (case v of
        VList xs \<Rightarrow> Some xs
      | _ \<Rightarrow> map_option (\<lambda>s. [s]) (castString v))"

definition castDate :: "(string \<Rightarrow> nat option) \<Rightarrow> fieldValue \<Rightarrow> nat option option" where
  "castDate dateOfString v =
     (case v of
        VNum n \<Rightarrow> Some (Some n)
      | VStr s \<Rightarrow> if s = [] then Some None else map_option Some (dateOfString s)
      | VBool b \<Rightarrow> None
      | VList xs \<Rightarrow> map_option Some (dateOfString (joinWith '','' xs)))"

text \<open>
  One key of the update written into a document (\<^verbatim>\<open>$set\<close>), after the cast and the
  setters of its path; \<open>None\<close> is the cast error. Every schema path can be written this
  way, the password, \<^verbatim>\<open>id\<close> and \<open>lastLogin\<close> included. \<^verbatim>\<open>timestamps: true\<close> discards what
  an update sets for \<open>createdAt\<close> and \<open>updatedAt\<close>, and strict mode drops a key that is
  no schema path.
\<close>

definition setField :: "(string \<Rightarrow> nat option) \<Rightarrow> string \<times> fieldValue \<Rightarrow> user_doc \<Rightarrow> user_doc option" where
  "setField dateOfString kv d =
     (case kv of (k, v) \<Rightarrow>
        if k = ''username'' then map_option (\<lambda>s. d\<lparr>username := trim s\<rparr>) (castString v)
        else if k = ''email'' then map_option (\<lambda>s. d\<lparr>email := trim (toLowerCase s)\<rparr>) (castString v)
        else if k = ''fullName'' then map_option (\<lambda>s. d\<lparr>fullName := trim s\<rparr>) (castString v)
        else if k = ''role'' then map_option (\<lambda>s. d\<lparr>role := s\<rparr>) (castString v)
        else if k = ''unit'' then map_option (\<lambda>s. d\<lparr>unit := Some s\<rparr>) (castString v)
        else if k = ''npk'' then map_option (\<lambda>s. d\<lparr>npk := Some s\<rparr>) (castString v)
        else if k = ''permissions'' then map_option (\<lambda>ps. d\<lparr>permissions := ps\<rparr>) (castStrings v)
        else if k = ''isActive'' then map_option (\<lambda>b. d\<lparr>isActive := b\<rparr>) (castBoolean v)
        else if k = ''password'' then map_option (\<lambda>s. d\<lparr>password := s\<rparr>) (castString v)
        else if k = ''id'' then map_option (\<lambda>s. d\<lparr>uid := s\<rparr>) (castString v)
        else if k = ''lastLogin'' then map_option (\<lambda>t. d\<lparr>lastLogin := t\<rparr>) (castDate dateOfString v)
        else Some d)"

fun applyUpdates :: "(string \<Rightarrow> nat option) \<Rightarrow> (string \<times> fieldValue) list \<Rightarrow> user_doc \<Rightarrow> string + user_doc" where
  "applyUpdates dateOfString [] d = Inr d"
| "applyUpdates dateOfString (kv # kvs) d =
     (case setField dateOfString kv d of
        None \<Rightarrow> Inl (fst kv)
      | Some d' \<Rightarrow> applyUpdates dateOfString kvs d')"

text \<open>
  Update validators (\<^verbatim>\<open>runValidators: true\<close>) run on the paths the update sets, on the
  values as written. The \<^verbatim>\<open>required\<close> functions of \<^verbatim>\<open>npk\<close> and \<^verbatim>\<open>unit\<close> read
  \<^verbatim>\<open>this.role\<close>, which is not the document in an update, so they require nothing there.
\<close>

definition updateValidationErrors :: "string list \<Rightarrow> user_doc \<Rightarrow> string list" where
  "updateValidationErrors paths d =
     (if ''username'' \<in> set paths \<and> (length (username d) < 3 \<or> 30 < length (username d))
      then [''username''] else [])
     @ (if ''fullName'' \<in> set paths \<and> 100 < length (fullName d) then [''fullName''] else [])
     @ (if ''email'' \<in> set paths \<and> \<not> emailFormat (email d) then [''email''] else [])
     @ (if ''password'' \<in> set paths \<and> length (password d) < 8 then [''password''] else [])
     @ (if ''npk'' \<in> set paths \<and> \<not> hasNpkFormat d then [''npk''] else [])
     @ (if ''role'' \<in> set paths \<and> role d \<notin> set roleEnum then [''role''] else [])
     @ (if ''permissions'' \<in> set paths \<and> \<not> list_all (\<lambda>p. p \<in> set permissionEnum) (permissions d)
        then [''permissions''] else [])"

text \<open>
  \<^verbatim>\<open>this.findOneAndUpdate({$or: [{_id: userId}, {id: userId}]}, updates,
  {new: true, runValidators: true})\<close>: the conditions and the update are cast and the
  update is validated before the query is sent; the first document that matches is
  rewritten and returned (\<open>None\<close> when none matches). \<^verbatim>\<open>timestamps: true\<close> stamps
  \<open>updatedAt\<close>. The cast and the validators do not read the stored document, so they
  are run here on a document that is only a carrier of the values.
\<close>

definition carrier :: user_doc where
  "carrier =
     \<lparr>oid = [], uid = [], username = [], fullName = [], email = [], password = [], npk = None,
      role = [], permissions = [], unit = None, isActive = False, lastLogin = None,
      createdAt = 0, updatedAt = 0\<rparr>"

definition findOneAndUpdate ::
  "(string \<Rightarrow> nat option) \<Rightarrow> nat \<Rightarrow> user_doc list \<Rightarrow> string \<Rightarrow> (string \<times> fieldValue) list
     \<Rightarrow> dbError + (user_doc option \<times> user_doc list)" where
  "findOneAndUpdate dateOfString now store userId updates =
     (case castObjectId userId of
        None \<Rightarrow> Inl (CastError ''_id'')
      | Some objectId \<Rightarrow>
          (case applyUpdates dateOfString updates carrier of
             Inl k \<Rightarrow> Inl (CastError k)
           | Inr written \<Rightarrow>
               (case updateValidationErrors (map fst updates) written of
                  e # es \<Rightarrow> Inl (ValidationError (e # es))
                | [] \<Rightarrow>
                    (case find (\<lambda>d. oid d = objectId \<or> uid d = userId) store of
                       None \<Rightarrow> Inr (None, store)
                     | Some old \<Rightarrow>
                         (case applyUpdates dateOfString updates old of
                            Inl k \<Rightarrow> Inl (CastError k)
                          | Inr new \<Rightarrow>
                              (let doc = new\<lparr>updatedAt := now\<rparr> in
                               case duplicateKey (map fst updates) store doc of
                                 Some k \<Rightarrow> Inl (DuplicateKey k)
                               | None \<Rightarrow>
                                   Inr (Some doc,
                                        map (\<lambda>d. if oid d = oid old then doc else d) store)))))))"

text \<open>
  What \<^verbatim>\<open>updateUser\<close> throws: \<open>NoValidFields\<close> is
  \<^verbatim>\<open>Error("Failed to update user: No valid fields to update")\<close>, \<open>UserNotFound\<close> is
  \<^verbatim>\<open>Error("Failed to update user: User not found")\<close>, \<open>AlreadyExists f\<close> is
  \<^verbatim>\<open>Error(`${f} already exists`)\<close>, and \<open>UpdateFailed e\<close> is
  \<^verbatim>\<open>Error(`Failed to update user: ${error.message}`)\<close> for any other error \<open>e\<close>.
\<close>

datatype updateError =
  NoValidFields
  | UserNotFound
  | AlreadyExists string
  | UpdateFailed dbError

text \<open>\<^verbatim>\<open>updateUser(userId, updateData)\<close>; the document is returned without its password.\<close>

definition updateUser ::
  "(string \<Rightarrow> nat option) \<Rightarrow> nat \<Rightarrow> user_doc list \<Rightarrow> string \<Rightarrow> (string \<times> fieldValue) list
     \<Rightarrow> updateError + (user_doc \<times> user_doc list)" where
  "updateUser dateOfString now store userId updateData =
     (let updates = filter (\<lambda>kv. fst kv \<in> set allowedUpdates) updateData in
      if updates = [] then Inl NoValidFields
      else
        (case findOneAndUpdate dateOfString now store userId updates of
           Inl (DuplicateKey k) \<Rightarrow> Inl (AlreadyExists k)
         | Inl e \<Rightarrow> Inl (UpdateFailed e)
         | Inr (None, store') \<Rightarrow> Inl UserNotFound
         | Inr (Some doc, store') \<Rightarrow> Inr (hidePassword doc, store')))"

section \<open>Tokens and requests\<close>

text \<open>
  The identity claims a request carries as \<^verbatim>\<open>req.user\<close>:
  \<^verbatim>\<open>{id, username, email, role, permissions, unit, fullName}\<close>, each possibly absent.
\<close>

record claims =
  claimId :: "string option"
  claimUsername :: "string option"
  claimEmail :: "string option"
  claimRole :: "string option"
  claimPermissions :: "string list option"
  claimUnit :: "string option"
  claimFullName :: "string option"

text \<open>
  A decoded token payload: \<open>payloadUser\<close> is the nested \<^verbatim>\<open>decoded.user\<close>,
  \<open>payloadUserId\<close> is \<^verbatim>\<open>decoded.userId\<close>, and \<open>payloadFlat\<close> holds the claims written
  at the top level (\<^verbatim>\<open>decoded.id\<close>, \<^verbatim>\<open>decoded.role\<close>, ...).
\<close>

record payload =
  payloadUser :: "claims option"
  payloadUserId :: "string option"
  payloadFlat :: claims

definition noClaims :: claims where
  "noClaims = \<lparr>claimId = None, claimUsername = None, claimEmail = None, claimRole = None,
                claimPermissions = None, claimUnit = None, claimFullName = None\<rparr>"

text \<open>
  What \<^verbatim>\<open>jwt.verify\<close> reports for a token it rejects: \<^verbatim>\<open>TokenExpiredError\<close>, or an
  error of another name.
\<close>

datatype jwtError = TokenExpiredError | JsonWebTokenError

record request =
  authorization :: "string option"
  cookieToken :: "string option"
  user :: "claims option"
  userDetails :: "user_doc option"
  token :: "string option"

datatype outcome = Respond response | Next request

section \<open>Authorization middleware (middleware/roleAuth.js)\<close>

text \<open>\<^verbatim>\<open>authHeader && authHeader.split(" ")[1]\<close>\<close>

definition headerToken :: "string option \<Rightarrow> string option" where
  "headerToken authHeader =
     (case authHeader of
        None \<Rightarrow> None
      | Some h \<Rightarrow> if h = [] then Some [] else nthOpt (splitOn CHR '' '' h) 1)"

text \<open>
  \<^verbatim>\<open>authenticateToken\<close>. \<open>jwtVerify\<close> is \<^verbatim>\<open>jwt.verify\<close> with the configured secret at
  the time of the request.
\<close>

definition authenticateToken :: "(string \<Rightarrow> jwtError + payload) \<Rightarrow> request \<Rightarrow> outcome" where
  "authenticateToken jwtVerify req =
     (case headerToken (authorization req) of
        None \<Rightarrow> Respond (failure 401 ''Access token required'')
      | Some tok \<Rightarrow>
          if tok = [] then Respond (failure 401 ''Access token required'')
          else
            (case jwtVerify tok of
               Inl err \<Rightarrow> Respond (failure 403 ''Invalid or expired token'')
             | Inr decoded \<Rightarrow>
                 (case (case payloadUser decoded of
                          Some u \<Rightarrow> Some u
                        | None \<Rightarrow>
                            if truthy (claimRole (payloadFlat decoded))
                            then Some ((payloadFlat decoded)
                                   \<lparr>claimPermissions :=
                                      Some (case claimPermissions (payloadFlat decoded) of
                                              None \<Rightarrow> [] | Some ps \<Rightarrow> ps)\<rparr>)
                            else None) of
                    None \<Rightarrow> Respond (failure 403 ''Invalid or expired token'')
                  | Some userData \<Rightarrow>
                      if \<not> truthy (claimRole userData)
                      then Respond (failure 403 ''Invalid or expired token'')
                      else Next (req\<lparr>user := Some userData\<rparr>))))"

text \<open>
  \<^verbatim>\<open>hasPermission(userRole, userPermissions, requiredPermission)\<close>. For a role that
  names an inherited property, \<^verbatim>\<open>rolePerms\<close> is not an array and the call of its
  \<^verbatim>\<open>includes\<close> throws a TypeError (\<open>None\<close>).
\<close>

definition hasPermission :: "string option \<Rightarrow> string list option \<Rightarrow> string \<Rightarrow> bool option" where
  "hasPermission userRole userPermissions requiredPermission =
     (case getProperty rolePermissions (propertyKey userRole) of
        Inherited \<Rightarrow> None
      | Own rolePerms \<Rightarrow>
          Some (requiredPermission \<in> set rolePerms
                \<or> (case userPermissions of None \<Rightarrow> False | Some ps \<Rightarrow> requiredPermission \<in> set ps))
      | Absent \<Rightarrow>
          Some (case userPermissions of None \<Rightarrow> False | Some ps \<Rightarrow> requiredPermission \<in> set ps))"

definition accessDenied :: "string \<Rightarrow> claims \<Rightarrow> response" where
  "accessDenied permission u =
     \<lparr>status = 403,
      body = [(''success'', JBool False),
              (''message'', JStr (''Access denied. Permission '' @ [CHR 0x22] @ permission
                                   @ [CHR 0x22] @ '' required.''))]
             @ optField ''redirectUrl'' (getRoleRedirectUrl (claimRole u))
             @ optField ''userRole'' (map_option JStr (claimRole u))\<rparr>"

definition requiredPermission :: "string \<Rightarrow> request \<Rightarrow> outcome" where
  "requiredPermission permission req =
     (case user req of
        None \<Rightarrow> Respond (failure 401 ''User not authenticated'')
      | Some u \<Rightarrow>
          (case hasPermission (claimRole u) (claimPermissions u) permission of
             None \<Rightarrow> Respond (failure 500 ''Error checking permissions'')
           | Some True \<Rightarrow> Next req
           | Some False \<Rightarrow> Respond (accessDenied permission u)))"

text \<open>The record-level permissions of a request: \<^verbatim>\<open>req.user.permissions\<close>, when present.\<close>

definition recordPermissions :: "claims \<Rightarrow> string set" where
  "recordPermissions u = (case claimPermissions u of None \<Rightarrow> {} | Some ps \<Rightarrow> set ps)"

definition requireRole :: "string list \<Rightarrow> request \<Rightarrow> outcome" where
  "requireRole allowedRoles req =
     (case user req of
        None \<Rightarrow> Respond (failure 401 ''User not authenticated'')
      | Some u \<Rightarrow>
          (case claimRole u of
             None \<Rightarrow> Respond (failure 403 ''User role not defined'')
           | Some r \<Rightarrow>
               if r = [] then Respond (failure 403 ''User role not defined'')
               else if r \<notin> set allowedRoles
               then Respond \<lparr>status = 403,
                        body = [(''success'', JBool False),
                                (''message'', JStr (''Insufficient permissions. Required roles: ''
                                                     @ joinWith '', '' allowedRoles)),
                                (''userRole'', JStr r)]\<rparr>
               else Next req))"

text \<open>
  \<^verbatim>\<open>roleHierarchy[role] || 0\<close> as a number: an inherited property is a function or an
  object, which \<^verbatim>\<open><\<close> converts to \<^verbatim>\<open>NaN\<close> (\<open>None\<close>); a comparison with \<^verbatim>\<open>NaN\<close> is false.
\<close>

definition roleLevel :: "string option \<Rightarrow> nat option" where
  "roleLevel r =
     (case getProperty roleHierarchy (propertyKey r) of
        Own n \<Rightarrow> Some n
      | Absent \<Rightarrow> Some 0
      | Inherited \<Rightarrow> None)"

definition levelLess :: "nat option \<Rightarrow> nat option \<Rightarrow> bool" where
  "levelLess a b = (case (a, b) of (Some x, Some y) \<Rightarrow> x < y | _ \<Rightarrow> False)"

definition requireMinimumRole :: "string \<Rightarrow> request \<Rightarrow> outcome" where
  "requireMinimumRole minimumRole req =
     (case user req of
        None \<Rightarrow> Respond (failure 401 ''User not authenticated'')
      | Some u \<Rightarrow>
          if levelLess (roleLevel (claimRole u)) (roleLevel (Some minimumRole))
          then Respond \<lparr>status = 403,
                   body = [(''success'', JBool False),
                           (''message'', JStr (''Access denied. Minimum role '' @ [CHR 0x22] @ minimumRole
                                                @ [CHR 0x22] @ '' required.''))]
                          @ optField ''redirectUrl'' (getRoleRedirectUrl (claimRole u))
                          @ optField ''userRole'' (map_option JStr (claimRole u))
                          @ [(''minimumRole'', JStr minimumRole)]\<rparr>
          else Next req)"

text \<open>
  \<^verbatim>\<open>requireActiveUser\<close>: the lookup is \<^verbatim>\<open>User.findById(req.user.id)\<close>, and the answer
  for no document is "Account is deactivated or not found".
\<close>

definition requireActiveUser :: "nat \<Rightarrow> user_doc list \<Rightarrow> request \<Rightarrow> outcome \<times> user_doc list" where
  "requireActiveUser now store req =
     (case (case user req of None \<Rightarrow> None | Some u \<Rightarrow> claimId u) of
        None \<Rightarrow> (Respond (failure 401 ''User not authenticated''), store)
      | Some i \<Rightarrow>
          if i = [] then (Respond (failure 401 ''User not authenticated''), store)
          else
            (case findById store i of
               Inl err \<Rightarrow> (Respond (failure 500 ''Error checking user status''), store)
             | Inr None \<Rightarrow>
                 (Respond \<lparr>status = 403,
                           body = [(''success'', JBool False),
                                   (''message'', JStr ''Account is deactivated or not found''),
                                   (''redirectUrl'', JStr ''/login'')]\<rparr>, store)
             | Inr (Some foundUser) \<Rightarrow>
                 (case updateLastLogin now store foundUser of
                    Inl err \<Rightarrow> (Respond (failure 500 ''Error checking user status''), store)
                  | Inr (saved, store') \<Rightarrow> (Next (req\<lparr>userDetails := Some saved\<rparr>), store'))))"

text \<open>
  The sibling stage \<^verbatim>\<open>refreshUserData\<close> looks the user up with
  \<^verbatim>\<open>User.findActiveById(req.user.id)\<close> and answers 403 "User not found or inactive"
  when it finds nobody (here also for a request without an id, which it answers 401).
\<close>

definition refreshLookup :: "user_doc list \<Rightarrow> request \<Rightarrow> dbError + user_doc option" where
  "refreshLookup store req =
     (case (case user req of None \<Rightarrow> None | Some u \<Rightarrow> claimId u) of
        None \<Rightarrow> Inr None
      | Some i \<Rightarrow> if i = [] then Inr None else findActiveById store i)"

section \<open>Server endpoints (server.js)\<close>

text \<open>
  What the handlers take from outside the repository: the environment, the token
  signing and password hashing primitives, and the text of a database error.
\<close>

record platform =
  jwtSecret :: "string option"
  nodeEnv :: "string option"
  jwtSign :: "payload \<Rightarrow> string \<Rightarrow> string"
  bcryptCompare :: "string \<Rightarrow> string \<Rightarrow> bool"
  errorMessage :: "dbError \<Rightarrow> string"
  errorStack :: "string \<Rightarrow> string"

text \<open>The body of a login request, parsed by \<^verbatim>\<open>express.json()\<close>.\<close>

record loginBody =
  bodyIdentifier :: "json option"
  bodyPassword :: "json option"

text \<open>\<^verbatim>\<open>s.includes(pat)\<close>\<close>

primrec strIncludes :: "string \<Rightarrow> string \<Rightarrow> bool" where
  "strIncludes [] pat = (pat = [])"
| "strIncludes (c # cs) pat = (take (length pat) (c # cs) = pat \<or> strIncludes cs pat)"

text \<open>The \<^verbatim>\<open>catch\<close> block of \<^verbatim>\<open>POST /api/login\<close>, for an error with message \<open>msg\<close>.\<close>

definition loginError :: "platform \<Rightarrow> string \<Rightarrow> response" where
  "loginError p msg =
     (if strIncludes msg ''JWT_SECRET'' then failure 500 ''Server configuration error''
      else \<lparr>status = 500,
            body = [(''success'', JBool False), (''message'', JStr ''Internal server error'')]
                   @ (if nodeEnv p = Some ''development''
                      then [(''error'', JStr msg), (''stack'', JStr (errorStack p msg))] else [])\<rparr>)"

text \<open>
  The payload \<^verbatim>\<open>POST /api/login\<close> and \<^verbatim>\<open>POST /api/register\<close> sign:
  \<^verbatim>\<open>jwt.sign({ userId: foundUser._id }, process.env.JWT_SECRET, { expiresIn: "1d" })\<close>.
\<close>

definition serverTokenPayload :: "user_doc \<Rightarrow> payload" where
  "serverTokenPayload d = \<lparr>payloadUser = None, payloadUserId = Some (oid d), payloadFlat = noClaims\<rparr>"

text \<open>
  The object \<^verbatim>\<open>tokenPayload\<close> that \<^verbatim>\<open>POST /api/register\<close> builds before it signs, and
  never passes to \<^verbatim>\<open>jwt.sign\<close>.
\<close>

definition registerTokenPayload :: "user_doc \<Rightarrow> payload" where
  "registerTokenPayload d =
     \<lparr>payloadUser = Some \<lparr>claimId = Some (oid d), claimUsername = Some (username d),
                           claimEmail = Some (email d), claimRole = Some (role d),
                           claimPermissions = Some (permissions d), claimUnit = unit d,
                           claimFullName = Some (fullName d)\<rparr>,
      payloadUserId = None, payloadFlat = noClaims\<rparr>"

text \<open>The payload the login of the auth router (routes/auth.js) signs: \<^verbatim>\<open>{ user: userPayload }\<close>.\<close>

definition authRouterTokenPayload :: "user_doc \<Rightarrow> payload" where
  "authRouterTokenPayload d =
     \<lparr>payloadUser = Some \<lparr>claimId = Some (oid d), claimUsername = Some (username d),
                           claimEmail = Some (email d), claimRole = Some (role d),
                           claimPermissions = Some (permissions d), claimUnit = None,
                           claimFullName = None\<rparr>,
      payloadUserId = None, payloadFlat = noClaims\<rparr>"

text \<open>
  The filter of the login lookup:
  \<^verbatim>\<open>{$or: [{email: identifier.toLowerCase().trim()}, {username: identifier.trim()}]}\<close>.
\<close>

definition loginMatch :: "string \<Rightarrow> user_doc \<Rightarrow> bool" where
  "loginMatch ident d = (email d = trim (toLowerCase ident) \<or> username d = trim ident)"

definition loginSuccess :: "user_doc \<Rightarrow> string \<Rightarrow> response" where
  "loginSuccess d tok =
     \<lparr>status = 200,
      body = [(''success'', JBool True), (''message'', JStr ''Login successful''),
              (''user'', JObj ([(''_id'', JStr (oid d)), (''username'', JStr (username d)),
                                (''email'', JStr (email d)), (''role'', JStr (role d)),
                                (''createdAt'', JNum (int (createdAt d)))]
                               @ optField ''lastLogin'' (map_option (\<lambda>t. JNum (int t)) (lastLogin d)))),
              (''token'', JStr tok)]\<rparr>"

text \<open>
  \<^verbatim>\<open>POST /api/login\<close>: the response and the collection afterwards. The handler tests
  identifier and password for truthiness only; an identifier that is not a string has
  no \<^verbatim>\<open>toLowerCase\<close>, and the call throws a TypeError into the \<^verbatim>\<open>catch\<close> block.
\<close>

definition login :: "platform \<Rightarrow> nat \<Rightarrow> user_doc list \<Rightarrow> loginBody \<Rightarrow> response \<times> user_doc list" where
  "login p now store b =
     (if \<not> (jsTruthy (bodyIdentifier b) \<and> jsTruthy (bodyPassword b))
      then (failure 400 ''Email/username and password are required'', store)
      else
        (case (bodyIdentifier b, bodyPassword b) of
           (Some (JStr identifier), Some pw) \<Rightarrow>
             (case find (loginMatch identifier) store of
                None \<Rightarrow> (failure 401 ''Invalid credentials'', store)
              | Some stored \<Rightarrow>
                  (let foundUser = hidePassword stored in
                   case comparePassword (bcryptCompare p) store foundUser pw of
                     Inl msg \<Rightarrow> (loginError p msg, store)
                   | Inr isPasswordValid \<Rightarrow>
                       if \<not> isPasswordValid then (failure 401 ''Invalid credentials'', store)
                       else if \<not> truthy (jwtSecret p)
                       then (loginError p ''JWT_SECRET not configured'', store)
                       else
                         (let tok = jwtSign p (serverTokenPayload foundUser) (stringOf (jwtSecret p)) in
                          case save now store (foundUser\<lparr>lastLogin := Some now\<rparr>) of
                            Inl err \<Rightarrow> (loginError p (errorMessage p err), store)
                          | Inr (saved, store') \<Rightarrow> (loginSuccess saved tok, store'))))
         | _ \<Rightarrow> (loginError p ''identifier.toLowerCase is not a function'', store)))"

section \<open>Token revocation (routes/auth.js) and the two logout handlers\<close>

text \<open>
  The auth router keeps \<^verbatim>\<open>tokenBlacklist\<close>, a set of token strings, and schedules the
  eviction of each with \<^verbatim>\<open>setTimeout\<close>; \<open>timers\<close> holds the time each eviction is due.
\<close>

record authState =
  tokenBlacklist :: "string set"
  timers :: "(nat \<times> string) list"

text \<open>
  \<^verbatim>\<open>setTimeout\<close> runs a callback after 1 ms when the delay is below 1 or above
  \<open>2\<^sup>3\<^sup>1 - 1\<close>.
\<close>

definition timerDelay :: "int \<Rightarrow> nat" where
  "timerDelay d = (if d < 1 \<or> 2147483647 < d then 1 else nat d)"

text \<open>
  \<^verbatim>\<open>addTokenToBlacklist(token)\<close>; \<open>jwtExp\<close> is \<^verbatim>\<open>jwt.decode(token)?.exp\<close>, in seconds.
\<close>

definition addTokenToBlacklist :: "(string \<Rightarrow> nat option) \<Rightarrow> nat \<Rightarrow> string \<Rightarrow> authState \<Rightarrow> authState" where
  "addTokenToBlacklist jwtExp now tok st =
     (let st' = st\<lparr>tokenBlacklist := insert tok (tokenBlacklist st)\<rparr> in
      case jwtExp tok of
        None \<Rightarrow> st'
      | Some e \<Rightarrow>
          if e = 0 then st'
          else st'\<lparr>timers := timers st' @ [(now + timerDelay (int e * 1000 - int now), tok)]\<rparr>)"

definition isTokenBlacklisted :: "string \<Rightarrow> authState \<Rightarrow> bool" where
  "isTokenBlacklisted tok st = (tok \<in> tokenBlacklist st)"

text \<open>The scheduled evictions that are due at \<open>now\<close> run.\<close>

definition runTimers :: "nat \<Rightarrow> authState \<Rightarrow> authState" where
  "runTimers now st =
     st\<lparr>tokenBlacklist := tokenBlacklist st - set (map snd (filter (\<lambda>t. fst t \<le> now) (timers st))),
        timers := filter (\<lambda>t. now < fst t) (timers st)\<rparr>"

text \<open>
  \<^verbatim>\<open>authHeader?.startsWith("Bearer ") ? authHeader.split(" ")[1] : req.cookies?.token\<close>
\<close>

definition requestToken :: "request \<Rightarrow> string option" where
  "requestToken req =
     (case authorization req of
        None \<Rightarrow> cookieToken req
      | Some h \<Rightarrow> if take 7 h = ''Bearer '' then nthOpt (splitOn CHR '' '' h) 1 else cookieToken req)"

definition verifyToken :: "(string \<Rightarrow> jwtError + payload) \<Rightarrow> authState \<Rightarrow> request \<Rightarrow> outcome" where
  "verifyToken jwtVerify st req =
     (case requestToken req of
        None \<Rightarrow> Respond (failure 401 ''Authentication required'')
      | Some tok \<Rightarrow>
          if tok = [] then Respond (failure 401 ''Authentication required'')
          else if isTokenBlacklisted tok st
          then Respond (failure 401 ''Session expired. Please login again.'')
          else
            (case jwtVerify tok of
               Inr decoded \<Rightarrow> Next (req\<lparr>user := payloadUser decoded, token := Some tok\<rparr>)
             | Inl TokenExpiredError \<Rightarrow> Respond (failure 401 ''Session expired'')
             | Inl JsonWebTokenError \<Rightarrow> Respond (failure 401 ''Invalid token'')))"

definition loggedOut :: response where
  "loggedOut = \<lparr>status = 200, body = [(''success'', JBool True), (''message'', JStr ''Logged out successfully'')]\<rparr>"

text \<open>\<^verbatim>\<open>router.post("/logout", verifyToken, ...)\<close> of the auth router.\<close>

definition authRouterLogout ::
  "(string \<Rightarrow> jwtError + payload) \<Rightarrow> (string \<Rightarrow> nat option) \<Rightarrow> nat \<Rightarrow> authState \<Rightarrow> request
     \<Rightarrow> response \<times> authState" where
  "authRouterLogout jwtVerify jwtExp now st req =
     (case verifyToken jwtVerify st req of
        Respond r \<Rightarrow> (r, st)
      | Next req' \<Rightarrow> (loggedOut, addTokenToBlacklist jwtExp now (stringOf (token req')) st))"

text \<open>
  \<^verbatim>\<open>app.post("/api/auth/logout", ...)\<close> of server.js: it answers and touches no state
  ("Since you're using JWT tokens (stateless), we don't need to do much server-side").
\<close>

definition serverLogout :: "authState \<Rightarrow> request \<Rightarrow> response \<times> authState" where
  "serverLogout st req = (loggedOut, st)"

section \<open>Sample data\<close>

text \<open>
  The nurse of the specification's end-to-end scenario, stored with a well-formed
  npk; the same nurse as a candidate that supplies no npk; the nurse deactivated; and
  a partner (role \<^verbatim>\<open>mitra\<close>), who needs neither npk nor unit.
\<close>

definition nurseA :: user_doc where
  "nurseA =
     \<lparr>oid = ''64b0c0ffee0000000000a001'', uid = ''3f2b7c1e-1a2b-4c3d-8e4f-0000000000a1'', username = ''nurseA'',
      fullName = ''Nurse A'', email = ''a@x.com'', password = ''$2a$12$secret123'',
      npk = Some ''NPK0001'', role = ''perawat'', permissions = [], unit = Some ''ICU'',
      isActive = True, lastLogin = None, createdAt = 1000, updatedAt = 1000\<rparr>"

definition newNurse :: user_doc where
  "newNurse = nurseA\<lparr>npk := None, password := ''secret123''\<rparr>"

definition inactiveNurse :: user_doc where
  "inactiveNurse = nurseA\<lparr>isActive := False\<rparr>"

definition mitraB :: user_doc where
  "mitraB =
     \<lparr>oid = ''64b0c0ffee0000000000b002'', uid = ''9d4e5a60-5b6c-4d7e-9f80-0000000000b2'', username = ''mitraB'',
      fullName = ''Mitra B'', email = ''b@x.com'', password = ''$2a$12$password9'',
      npk = None, role = ''mitra'', permissions = [], unit = None,
      isActive = True, lastLogin = None, createdAt = 2000, updatedAt = 2000\<rparr>"

definition claimsOf :: "user_doc \<Rightarrow> claims" where
  "claimsOf d =
     \<lparr>claimId = Some (oid d), claimUsername = Some (username d), claimEmail = Some (email d),
      claimRole = Some (role d), claimPermissions = Some (permissions d), claimUnit = unit d,
      claimFullName = Some (fullName d)\<rparr>"

definition adminClaims :: claims where
  "adminClaims =
     \<lparr>claimId = Some ''64b0c0ffee0000000000c003'', claimUsername = Some ''root'',
      claimEmail = Some ''root@x.com'', claimRole = Some ''admin'', claimPermissions = Some [],
      claimUnit = None, claimFullName = Some ''Root''\<rparr>"

definition requestWith :: "claims \<Rightarrow> request" where
  "requestWith u =
     \<lparr>authorization = None, cookieToken = None, user = Some u, userDetails = None, token = None\<rparr>"

definition bearer :: "string \<Rightarrow> request" where
  "bearer tok =
     \<lparr>authorization = Some (''Bearer '' @ tok), cookieToken = None, user = None,
      userDetails = None, token = None\<rparr>"

text \<open>
  A stand-in for the external primitives: the hash of a password is the password behind
  a fixed prefix, every payload is signed to the token that \<open>sampleVerify\<close> decodes.
\<close>

definition samplePlatform :: platform where
  "samplePlatform =
     \<lparr>jwtSecret = Some ''s3cret'', nodeEnv = None,
      jwtSign = (\<lambda>pl secret. ''hhhh.pppp.ssss''),
      bcryptCompare = (\<lambda>candidate hash. hash = ''$2a$12$'' @ candidate),
      errorMessage = (\<lambda>e. ''User validation failed''),
      errorStack = (\<lambda>m. [])\<rparr>"

definition sampleVerify :: "payload \<Rightarrow> string \<Rightarrow> jwtError + payload" where
  "sampleVerify pl tok = (if tok = ''hhhh.pppp.ssss'' then Inr pl else Inl JsonWebTokenError)"

text \<open>A date parser that reads no string as a date, and an ObjectId no record has.\<close>

definition noDates :: "string \<Rightarrow> nat option" where
  "noDates s = None"


definition emptyAuthState :: authState where
  "emptyAuthState = \<lparr>tokenBlacklist = {}, timers = []\<rparr>"

section \<open>The npk assigned by the pre-save hook\<close>

lemma showNat_digits: "showNat n \<noteq> [] \<and> isDigit (hd (showNat n))"
proof (induction n rule: showNat.induct)
  case (1 n)
  show ?case
  proof (cases "n < 10")
    case True
    then have "n \<in> {0,1,2,3,4,5,6,7,8,9}" by auto
    then show ?thesis
      by (auto simp: showNat.simps [of n] isDigit_def)
  next
    case False
    with 1 show ?thesis by (simp add: showNat.simps [of n])
  qed
qed

lemma padStart_hd:
  "s \<noteq> [] \<Longrightarrow> hd (padStart w c s) = (if length s < w then c else hd s)"
  by (cases "w - length s") (auto simp: padStart_def)

lemma numberToString_hd:
  "numberToString v \<noteq> [] \<and> hd (numberToString v) \<noteq> CHR ''N'' \<or> v = None"
proof (cases v)
  case None
  then show ?thesis by simp
next
  case (Some i)
  have "showNat (nat (- i)) \<noteq> []" "showNat (nat i) \<noteq> []"
       "hd (showNat (nat i)) \<noteq> CHR ''N''"
    using showNat_digits [of "nat i"] showNat_digits [of "nat (- i)"]
    by (auto simp: isDigit_def)
  then show ?thesis using Some by (simp add: numberToString_def)
qed

text \<open>
  Claim C1 says that the npk the pre-save hook assigns to a new nurse has the format
  \<^verbatim>\<open>NPK\<close> plus four digits. The hook writes the padded number without the prefix, so
  for every collection and every nurse without an npk the assigned value fails the
  schema's own format check; the batch repair \<open>repairedNpk\<close> does write the prefix.
\<close>

theorem preSaveNpk_never_wellformed:
  assumes "role this = ''perawat''" and "\<not> truthy (npk this)"
  shows "\<exists>v. npk (preSaveNpk store this) = Some v \<and> \<not> npkFormat v"
proof -
  obtain nn where n: "npk (preSaveNpk store this) = Some (padStart 4 CHR ''0'' (numberToString nn))"
    using assms by (simp add: preSaveNpk_def Let_def)
  have "hd (padStart 4 CHR ''0'' (numberToString nn)) \<noteq> CHR ''N''"
  proof (cases nn)
    case None
    then show ?thesis by (simp add: numberToString_def padStart_def numeral_eq_Suc)
  next
    case (Some i)
    then show ?thesis
      using numberToString_hd [of nn] by (auto simp: padStart_hd)
  qed
  moreover have "\<And>v. npkFormat v \<Longrightarrow> hd v = CHR ''N''"
  proof -
    fix v assume "npkFormat v"
    then show "hd v = CHR ''N''"
      by (cases v) (simp_all add: npkFormat_def take_Cons')
  qed
  ultimately show ?thesis using n by auto
qed

theorem preSaveNpk_never_wellformed_witness:
  "role newNurse = ''perawat'' \<and> \<not> truthy (npk newNurse)
   \<and> npk (preSaveNpk [] newNurse) = Some ''0001''
   \<and> (\<exists>v. npk (preSaveNpk [] newNurse) = Some v \<and> \<not> npkFormat v)
   \<and> validationErrors True (preSaveNpk [] newNurse) = [''npk'']
   \<and> validationErrors True newNurse = [''npk'']
   \<and> repairedNpk 1 0 = ''NPK0001''"
proof -
  have a: "role newNurse = ''perawat''" by (simp add: newNurse_def nurseA_def)
  have b: "\<not> truthy (npk newNurse)" by (simp add: newNurse_def truthy_def)
  have c: "npk (preSaveNpk [] newNurse) = Some ''0001''" by code_simp
  have d: "validationErrors True (preSaveNpk [] newNurse) = [''npk'']" by code_simp
  have e: "repairedNpk 1 0 = ''NPK0001''" by code_simp
  have f: "validationErrors True newNurse = [''npk'']" by code_simp
  show ?thesis
    using preSaveNpk_never_wellformed [OF a b, of "[]"] a b c d e f by simp
qed

text \<open>
  The hook has nothing left to do once validation has passed: validation requires an
  npk of every \<^verbatim>\<open>perawat\<close>, and the hook acts only on a \<^verbatim>\<open>perawat\<close> without one. So
  \<open>save\<close>, which validates first, never assigns an npk.
\<close>

theorem npk_hook_idle_after_validation:
  assumes "validationErrors withPassword this = []"
  shows "preSaveNpk store this = this"
proof -
  from assms have "\<not> (role this = ''perawat'' \<and> \<not> truthy (npk this))"
    by (auto simp: validationErrors_def split: if_splits)
  then show ?thesis by (auto simp: preSaveNpk_def)
qed

theorem npk_hook_idle_after_validation_witness:
  "validationErrors False nurseA = [] \<and> preSaveNpk [mitraB] nurseA = nurseA"
proof -
  have v: "validationErrors False nurseA = []" by code_simp
  show ?thesis
    using npk_hook_idle_after_validation [OF v, of "[mitraB]"] v by simp
qed

section \<open>Permission checks\<close>

lemma hasPermission_listed:
  "propertyKey r \<notin> set objectPrototypeKeys \<Longrightarrow>
   hasPermission r ps tag =
     Some (tag \<in> set (getRolePermissions (propertyKey r))
           \<or> (case ps of None \<Rightarrow> False | Some qs \<Rightarrow> tag \<in> set qs))"
  by (auto simp: hasPermission_def getProperty_def getRolePermissions_def split: option.splits)

text \<open>
  Claim C7: for a request that carries identity claims, \<open>requiredPermission tag\<close> calls
  the next stage exactly when \<open>tag\<close> is among the role table's permissions for the
  request's role or among the request's own permissions, and answers 403 otherwise; it
  denies \<^verbatim>\<open>manage_users\<close> to a \<^verbatim>\<open>perawat\<close> with no permissions of its own and allows
  it to an \<^verbatim>\<open>admin\<close>. The role is any string that is not the name of a property
  inherited from \<^verbatim>\<open>Object.prototype\<close> (for those the stage answers 500).
\<close>

theorem requiredPermission_union:
  assumes "user req = Some u"
      and "propertyKey (claimRole u) \<notin> set objectPrototypeKeys"
  shows "requiredPermission tag req =
           (if tag \<in> set (getRolePermissions (propertyKey (claimRole u))) \<union> recordPermissions u
            then Next req else Respond (accessDenied tag u))
         \<and> status (accessDenied tag u) = 403
         \<and> (claimRole u = Some ''perawat'' \<and> recordPermissions u = {}
              \<longrightarrow> requiredPermission ''manage_users'' req = Respond (accessDenied ''manage_users'' u))
         \<and> (claimRole u = Some ''admin''
              \<longrightarrow> requiredPermission ''manage_users'' req = Next req)"
proof -
  have main: "\<And>t. requiredPermission t req =
           (if t \<in> set (getRolePermissions (propertyKey (claimRole u))) \<union> recordPermissions u
            then Next req else Respond (accessDenied t u))"
    using assms
    by (auto simp: requiredPermission_def hasPermission_listed recordPermissions_def split: option.splits)
  have st: "status (accessDenied tag u) = 403"
    by (simp add: accessDenied_def)
  have p: "getRolePermissions ''perawat'' = [''view_credentials'', ''create_credentials'']"
    by (simp add: getRolePermissions_def rolePermissions_def)
  have a: "''manage_users'' \<in> set (getRolePermissions ''admin'')"
    by (simp add: getRolePermissions_def rolePermissions_def)
  show ?thesis
    using main st p a by (simp add: propertyKey_def)
qed

theorem requiredPermission_union_witness:
  "user (requestWith (claimsOf nurseA)) = Some (claimsOf nurseA)
   \<and> propertyKey (claimRole (claimsOf nurseA)) \<notin> set objectPrototypeKeys
   \<and> requiredPermission ''manage_users'' (requestWith (claimsOf nurseA))
       = Respond (accessDenied ''manage_users'' (claimsOf nurseA))
   \<and> requiredPermission ''view_credentials'' (requestWith (claimsOf nurseA))
       = Next (requestWith (claimsOf nurseA))
   \<and> user (requestWith adminClaims) = Some adminClaims
   \<and> propertyKey (claimRole adminClaims) \<notin> set objectPrototypeKeys
   \<and> requiredPermission ''manage_users'' (requestWith adminClaims) = Next (requestWith adminClaims)"
proof -
  have u1: "user (requestWith (claimsOf nurseA)) = Some (claimsOf nurseA)"
    by (simp add: requestWith_def)
  have k1: "propertyKey (claimRole (claimsOf nurseA)) \<notin> set objectPrototypeKeys"
    by (simp add: claimsOf_def nurseA_def propertyKey_def objectPrototypeKeys_def)
  have u2: "user (requestWith adminClaims) = Some adminClaims"
    by (simp add: requestWith_def)
  have k2: "propertyKey (claimRole adminClaims) \<notin> set objectPrototypeKeys"
    by (simp add: adminClaims_def propertyKey_def objectPrototypeKeys_def)
  have r1: "claimRole (claimsOf nurseA) = Some ''perawat'' \<and> recordPermissions (claimsOf nurseA) = {}"
    by (simp add: claimsOf_def nurseA_def recordPermissions_def)
  have r2: "claimRole adminClaims = Some ''admin''"
    by (simp add: adminClaims_def)
  have v: "''view_credentials'' \<in> set (getRolePermissions (propertyKey (claimRole (claimsOf nurseA))))"
    by (simp add: claimsOf_def nurseA_def propertyKey_def getRolePermissions_def rolePermissions_def)
  show ?thesis
    using requiredPermission_union [OF u1 k1, of "''manage_users''"]
          requiredPermission_union [OF u1 k1, of "''view_credentials''"]
          requiredPermission_union [OF u2 k2, of "''manage_users''"]
          u1 k1 u2 k2 r1 r2 v
    by (simp add: getRolePermissions_def rolePermissions_def propertyKey_def)
qed

section \<open>What authenticateToken attaches\<close>

lemma requireRole_cases:
  "user req = Some u \<Longrightarrow> claimRole u = Some r \<Longrightarrow> r \<noteq> [] \<Longrightarrow>
   requireRole allowedRoles req =
     (if r \<in> set allowedRoles then Next req
      else Respond \<lparr>status = 403,
             body = [(''success'', JBool False),
                     (''message'', JStr (''Insufficient permissions. Required roles: ''
                                          @ joinWith '', '' allowedRoles)),
                     (''userRole'', JStr r)]\<rparr>)"
  by (simp add: requireRole_def)

text \<open>
  Claim C10: whenever \<open>authenticateToken\<close> calls the next stage, the request carries a
  \<^verbatim>\<open>req.user\<close> whose role is a non-empty string, so \<open>requireRole\<close> answers neither
  401 "User not authenticated" nor 403 "User role not defined" on it, and
  \<open>requireMinimumRole\<close> does not answer 401 "User not authenticated".
\<close>

theorem authenticateToken_attaches_role:
  assumes "authenticateToken jwtVerify req = Next req'"
  shows "\<exists>u r. user req' = Some u \<and> claimRole u = Some r \<and> r \<noteq> []
           \<and> requireRole allowedRoles req' \<noteq> Respond (failure 401 ''User not authenticated'')
           \<and> requireRole allowedRoles req' \<noteq> Respond (failure 403 ''User role not defined'')
           \<and> requireMinimumRole minimumRole req' \<noteq> Respond (failure 401 ''User not authenticated'')"
proof -
  from assms obtain u where u: "user req' = Some u" "truthy (claimRole u)"
    by (auto simp: authenticateToken_def split: option.splits if_splits sum.splits)
  then obtain r where r: "claimRole u = Some r" "r \<noteq> []"
    by (auto simp: truthy_def split: option.splits)
  have "requireRole allowedRoles req' \<noteq> Respond (failure 401 ''User not authenticated'')"
       "requireRole allowedRoles req' \<noteq> Respond (failure 403 ''User role not defined'')"
    using u r by (simp_all add: requireRole_cases failure_def)
  moreover have "requireMinimumRole minimumRole req' \<noteq> Respond (failure 401 ''User not authenticated'')"
    using u by (simp add: requireMinimumRole_def failure_def)
  ultimately show ?thesis using u r by blast
qed

theorem authenticateToken_attaches_role_witness:
  "authenticateToken (sampleVerify (authRouterTokenPayload nurseA)) (bearer ''hhhh.pppp.ssss'')
     = Next ((bearer ''hhhh.pppp.ssss'')\<lparr>user := Some (claimsOf nurseA\<lparr>claimUnit := None, claimFullName := None\<rparr>)\<rparr>)
   \<and> (\<exists>u r. user ((bearer ''hhhh.pppp.ssss'')\<lparr>user := Some (claimsOf nurseA\<lparr>claimUnit := None, claimFullName := None\<rparr>)\<rparr>) = Some u
          \<and> claimRole u = Some r \<and> r \<noteq> [])
   \<and> requireRole [''admin''] ((bearer ''hhhh.pppp.ssss'')\<lparr>user := Some (claimsOf nurseA\<lparr>claimUnit := None, claimFullName := None\<rparr>)\<rparr>)
       \<noteq> Respond (failure 403 ''User role not defined'')"
proof -
  have e: "authenticateToken (sampleVerify (authRouterTokenPayload nurseA)) (bearer ''hhhh.pppp.ssss'')
     = Next ((bearer ''hhhh.pppp.ssss'')\<lparr>user := Some (claimsOf nurseA\<lparr>claimUnit := None, claimFullName := None\<rparr>)\<rparr>)"
    by (simp add: authenticateToken_def sampleVerify_def authRouterTokenPayload_def bearer_def
          headerToken_def claimsOf_def nurseA_def truthy_def)
  show ?thesis
    using authenticateToken_attaches_role [OF e, of "[''admin'']" "''admin''"] e by auto
qed

section \<open>Saving, soft deletion and the login timestamp\<close>

lemma preSaveNpk_valid:
  "validationErrors w this = [] \<Longrightarrow> preSaveNpk store this = this"
  by (auto simp: validationErrors_def preSaveNpk_def split: if_splits)

lemma save_result:
  assumes "save now store this = Inr (saved, store')"
  shows "saved = this\<lparr>updatedAt := now\<rparr>"
    and "store' = map (\<lambda>d. if oid d = oid this then saved\<lparr>password := password d\<rparr> else d) store"
    and "list_ex (\<lambda>d. oid d = oid this) store"
proof -
  from assms have v: "validationErrors False this = []"
    by (auto simp: save_def split: list.splits)
  then have p: "preSaveNpk store this = this" by (rule preSaveNpk_valid)
  from assms v p show "saved = this\<lparr>updatedAt := now\<rparr>"
    by (auto simp: save_def Let_def split: option.splits if_splits)
  from assms v p
  show "store' = map (\<lambda>d. if oid d = oid this then saved\<lparr>password := password d\<rparr> else d) store"
    by (auto simp: save_def Let_def split: option.splits if_splits)
  from assms v p show "list_ex (\<lambda>d. oid d = oid this) store"
    by (auto simp: save_def Let_def split: option.splits if_splits)
qed

lemma find_map_None:
  "(\<And>d. d \<in> set xs \<Longrightarrow> \<not> P (f d)) \<Longrightarrow> find P (map f xs) = None"
  by (induction xs) auto

text \<open>
  Claim C8: when \<open>softDelete\<close> completes, the document is saved with
  \<^verbatim>\<open>isActive = false\<close> and is still in the collection (no document is removed), and
  \<open>findByUsername\<close>, \<open>findByEmail\<close> and \<open>findActiveById\<close> (by the user's \<^verbatim>\<open>_id\<close>) no
  longer find that user: each returns \<^verbatim>\<open>null\<close>. The user is asked for by a name and an
  address that the query's setters turn into the stored ones. The hypotheses are what
  the collection guarantees: the \<^verbatim>\<open>_id\<close> is an ObjectId, and every other document
  differs from this user in username and email and has no \<^verbatim>\<open>id\<close> equal to this \<^verbatim>\<open>_id\<close>.
\<close>

theorem softDelete_excluded_but_stored:
  assumes "softDelete now store this = Inr (saved, store')"
      and "castObjectId (oid this) = Some (oid this)"
      and "list_all (\<lambda>d. oid d = oid this
                          \<or> (username d \<noteq> username this \<and> email d \<noteq> email this
                              \<and> uid d \<noteq> oid this))
                    store"
      and "trim name = username this"
      and "trim (toLowerCase mail) = email this"
  shows "\<not> isActive saved
         \<and> map oid store' = map oid store
         \<and> list_ex (\<lambda>d. oid d = oid this \<and> \<not> isActive d) store'
         \<and> findByUsername store' name = None
         \<and> findByEmail store' mail includePassword = None
         \<and> findActiveById store' (oid this) = Inr None"
proof -
  let ?del = "this\<lparr>isActive := False\<rparr>"
  let ?f = "\<lambda>d. if oid d = oid this then saved\<lparr>password := password d\<rparr> else d"
  from assms(1) have s: "save now store ?del = Inr (saved, store')"
    by (simp add: softDelete_def)
  have saved: "saved = ?del\<lparr>updatedAt := now\<rparr>"
    and store': "store' = map ?f store"
    and ex: "list_ex (\<lambda>d. oid d = oid this) store"
    using save_result [OF s] by simp_all
  have inactive: "\<not> isActive saved" using saved by simp
  from assms(3) have other: "\<And>d. d \<in> set store \<Longrightarrow> oid d \<noteq> oid this \<Longrightarrow>
                 username d \<noteq> username this \<and> email d \<noteq> email this \<and> uid d \<noteq> oid this"
    by (auto simp: list_all_iff)
  have ids: "map oid store' = map oid store"
    using saved by (simp add: store' comp_def cong: map_cong)
  have stored: "list_ex (\<lambda>d. oid d = oid this \<and> \<not> isActive d) store'"
  proof -
    from ex obtain d where d: "d \<in> set store" "oid d = oid this"
      by (auto simp: list_ex_iff)
    then have "?f d \<in> set store'" by (simp add: store')
    moreover have "oid (?f d) = oid this \<and> \<not> isActive (?f d)"
      using d saved by simp
    ultimately show ?thesis unfolding list_ex_iff by blast
  qed
  have byName: "find (\<lambda>d. username d = trim name \<and> isActive d) store' = None"
    unfolding store' assms(4) using other saved by (intro find_map_None) auto
  have byMail: "find (\<lambda>d. email d = trim (toLowerCase mail) \<and> isActive d) store' = None"
    unfolding store' assms(5) using other saved by (intro find_map_None) auto
  have byOid: "find (\<lambda>d. (oid d = oid this \<or> uid d = oid this) \<and> isActive d) store' = None"
    unfolding store' using other saved by (intro find_map_None) auto
  show ?thesis
    using inactive ids stored byName byMail byOid assms(2)
    by (simp add: findByUsername_def findByEmail_def findActiveById_def)
qed

theorem softDelete_excluded_but_stored_witness:
  "softDelete 5000 [nurseA, mitraB] (hidePassword nurseA)
     = Inr (hidePassword (nurseA\<lparr>isActive := False, updatedAt := 5000\<rparr>),
            [nurseA\<lparr>isActive := False, updatedAt := 5000\<rparr>, mitraB])
   \<and> castObjectId (oid (hidePassword nurseA)) = Some (oid (hidePassword nurseA))
   \<and> list_all (\<lambda>d. oid d = oid (hidePassword nurseA)
                     \<or> (username d \<noteq> username (hidePassword nurseA) \<and> email d \<noteq> email (hidePassword nurseA)
                         \<and> uid d \<noteq> oid (hidePassword nurseA)))
        [nurseA, mitraB]
   \<and> trim '' nurseA '' = username (hidePassword nurseA)
   \<and> trim (toLowerCase ''A@X.com'') = email (hidePassword nurseA)
   \<and> findByUsername [nurseA, mitraB] '' nurseA '' = Some (hidePassword nurseA)
   \<and> findActiveById [nurseA, mitraB] (oid nurseA) = Inr (Some (hidePassword nurseA))
   \<and> findByUsername [nurseA\<lparr>isActive := False, updatedAt := 5000\<rparr>, mitraB] '' nurseA '' = None
   \<and> findByEmail [nurseA\<lparr>isActive := False, updatedAt := 5000\<rparr>, mitraB] ''A@X.com'' False = None
   \<and> findActiveById [nurseA\<lparr>isActive := False, updatedAt := 5000\<rparr>, mitraB] (oid (hidePassword nurseA))
       = Inr None
   \<and> list_ex (\<lambda>d. oid d = oid (hidePassword nurseA) \<and> \<not> isActive d)
        [nurseA\<lparr>isActive := False, updatedAt := 5000\<rparr>, mitraB]"
proof -
  have run: "softDelete 5000 [nurseA, mitraB] (hidePassword nurseA)
     = Inr (hidePassword (nurseA\<lparr>isActive := False, updatedAt := 5000\<rparr>),
            [nurseA\<lparr>isActive := False, updatedAt := 5000\<rparr>, mitraB])"
    by code_simp
  have cast: "castObjectId (oid (hidePassword nurseA)) = Some (oid (hidePassword nurseA))"
    by code_simp
  have ids: "list_all (\<lambda>d. oid d = oid (hidePassword nurseA)
                     \<or> (username d \<noteq> username (hidePassword nurseA) \<and> email d \<noteq> email (hidePassword nurseA)
                         \<and> uid d \<noteq> oid (hidePassword nurseA)))
        [nurseA, mitraB]"
    by (simp add: nurseA_def mitraB_def hidePassword_def)
  have nm: "trim '' nurseA '' = username (hidePassword nurseA)" by code_simp
  have ml: "trim (toLowerCase ''A@X.com'') = email (hidePassword nurseA)" by code_simp
  have before: "findByUsername [nurseA, mitraB] '' nurseA '' = Some (hidePassword nurseA)" by code_simp
  have before': "findActiveById [nurseA, mitraB] (oid nurseA) = Inr (Some (hidePassword nurseA))"
    by code_simp
  show ?thesis
    using softDelete_excluded_but_stored [OF run cast ids nm ml, of False]
          run cast ids nm ml before before'
    by simp
qed

text \<open>
  Claim C4 says that \<open>requireActiveUser\<close> answers 403 for a user whose record has
  \<^verbatim>\<open>isActive = false\<close>. The stage looks the record up with \<open>findById\<close>, which does not
  read \<^verbatim>\<open>isActive\<close>: for the deactivated nurse it stamps \<open>lastLogin\<close> and calls the
  next stage, where \<open>findActiveById\<close> and the sibling stage's lookup find nobody.
\<close>

theorem requireActiveUser_passes_inactive:
  "findActiveById [inactiveNurse] (oid inactiveNurse) = Inr None
   \<and> refreshLookup [inactiveNurse] (requestWith (claimsOf inactiveNurse)) = Inr None
   \<and> requireActiveUser 5000 [inactiveNurse] (requestWith (claimsOf inactiveNurse))
       = (Next ((requestWith (claimsOf inactiveNurse))
                  \<lparr>userDetails := Some (hidePassword (inactiveNurse\<lparr>lastLogin := Some 5000, updatedAt := 5000\<rparr>))\<rparr>),
          [inactiveNurse\<lparr>lastLogin := Some 5000, updatedAt := 5000\<rparr>])"
  by code_simp

text \<open>
  Claim C6 says that \<open>updateLastLogin\<close> bypasses document validation. It calls
  \<^verbatim>\<open>this.save()\<close>, which validates: after \<open>updateUser\<close> has made the partner a
  \<^verbatim>\<open>perawat\<close> (update validators accept that), the record has neither npk nor unit,
  and \<open>updateLastLogin\<close> on it fails with a validation error on those two paths.
\<close>

theorem updateLastLogin_validates:
  "updateUser noDates 3000 [mitraB] (oid mitraB) [(''role'', VStr ''perawat'')]
     = Inr (hidePassword (mitraB\<lparr>role := ''perawat'', updatedAt := 3000\<rparr>),
            [mitraB\<lparr>role := ''perawat'', updatedAt := 3000\<rparr>])
   \<and> findById [mitraB\<lparr>role := ''perawat'', updatedAt := 3000\<rparr>] (oid mitraB)
       = Inr (Some (hidePassword (mitraB\<lparr>role := ''perawat'', updatedAt := 3000\<rparr>)))
   \<and> updateLastLogin 4000 [mitraB\<lparr>role := ''perawat'', updatedAt := 3000\<rparr>]
        (hidePassword (mitraB\<lparr>role := ''perawat'', updatedAt := 3000\<rparr>))
       = Inl (ValidationError [''npk'', ''unit''])"
  by code_simp

section \<open>updateUser and its allow-list\<close>









section \<open>Login failures\<close>

lemma find_by_oid:
  "distinct (map oid xs) \<Longrightarrow> d \<in> set xs \<Longrightarrow> find (\<lambda>x. oid x = oid d) xs = Some d"
  by (induction xs) (auto simp: image_iff)

lemma find_Some_mem: "find P xs = Some d \<Longrightarrow> d \<in> set xs \<and> P d"
  by (induction xs) (auto split: if_splits)

text \<open>
  Claim C9 says that a login whose identifier matches no user and a login whose
  identifier matches a user but whose password is wrong get the same response. The
  handler passes whatever JSON value the body holds as password on to
  \<^verbatim>\<open>bcrypt.compare\<close>, which rejects a value that is not a string: with the number 12345
  as password, under any configuration and at any time, the login for the stored
  \<^verbatim>\<open>nurseA\<close> is answered 500, and the same login where no user has that name is
  answered 401 "Invalid credentials". The two responses tell whether the user exists.
\<close>

theorem login_reveals_existing_user:
  "login p now [mitraB] \<lparr>bodyIdentifier = Some (JStr ''nurseA''), bodyPassword = Some (JNum 12345)\<rparr>
     = (failure 401 ''Invalid credentials'', [mitraB])
   \<and> status (fst (login p now [nurseA, mitraB]
                    \<lparr>bodyIdentifier = Some (JStr ''nurseA''), bodyPassword = Some (JNum 12345)\<rparr>))
     = 500
   \<and> login samplePlatform 5000 [nurseA, mitraB]
        \<lparr>bodyIdentifier = Some (JStr ''nurseA''), bodyPassword = Some (JNum 12345)\<rparr>
     = (failure 500 ''Internal server error'', [nurseA, mitraB])"
proof -
  let ?b = "\<lparr>bodyIdentifier = Some (JStr ''nurseA''), bodyPassword = Some (JNum 12345)\<rparr>"
  have t: "jsTruthy (bodyIdentifier ?b) \<and> jsTruthy (bodyPassword ?b)" by code_simp
  have n: "find (loginMatch ''nurseA'') [mitraB] = None" by code_simp
  have f: "find (loginMatch ''nurseA'') [nurseA, mitraB] = Some nurseA" by code_simp
  have c: "comparePassword cmp [nurseA, mitraB] (hidePassword nurseA) (JNum 12345)
             = Inl ''Illegal arguments: number, string''" for cmp
    by (simp add: comparePassword_def hidePassword_def bcryptCall_def typeofJson_def
                  nurseA_def mitraB_def)
  have s: "status (loginError p msg) = 500" for msg
    by (simp add: loginError_def failure_def)
  have l1: "login p now [mitraB] ?b = (failure 401 ''Invalid credentials'', [mitraB])"
    using t n by (simp add: login_def)
  have l2: "login p now [nurseA, mitraB] ?b
              = (loginError p ''Illegal arguments: number, string'', [nurseA, mitraB])"
    using t f c by (simp add: login_def Let_def)
  have l3: "login samplePlatform 5000 [nurseA, mitraB] ?b
              = (failure 500 ''Internal server error'', [nurseA, mitraB])"
    by code_simp
  show ?thesis
    using l1 l2 l3 s by simp
qed

text \<open>
  When the password of the request is a string, the two failures of a login are the
  same: an identifier that matches no user and an identifier that matches a user whose
  stored hash the password does not match both get 401 with the message
  "Invalid credentials", and neither changes the collection. The identifier is a
  non-empty string, \<^verbatim>\<open>_id\<close> is unique and the matched user has a stored hash.
\<close>

theorem login_same_failure:
  assumes "bodyIdentifier b = Some (JStr ident)" and "ident \<noteq> []"
      and "bodyPassword b = Some (JStr pw)" and "pw \<noteq> []"
      and "find (loginMatch ident) store1 = None"
      and "find (loginMatch ident) store2 = Some d"
      and "distinct (map oid store2)"
      and "password d \<noteq> []"
      and "\<not> bcryptCompare p pw (password d)"
  shows "login p now store1 b = (failure 401 ''Invalid credentials'', store1)
         \<and> login p now store2 b = (failure 401 ''Invalid credentials'', store2)
         \<and> fst (login p now store1 b) = fst (login p now store2 b)"
proof -
  have t: "jsTruthy (bodyIdentifier b) \<and> jsTruthy (bodyPassword b)"
    using assms(1-4) by (simp add: jsTruthy_def)
  have l1: "login p now store1 b = (failure 401 ''Invalid credentials'', store1)"
    using t assms(1,3,5) by (simp add: login_def Let_def)
  have mem: "d \<in> set store2" using find_Some_mem [OF assms(6)] by simp
  have refetch: "find (\<lambda>x. oid x = oid (hidePassword d)) store2 = Some d"
    using find_by_oid [OF assms(7) mem] by (simp add: hidePassword_def)
  have cmp: "comparePassword (bcryptCompare p) store2 (hidePassword d) (JStr pw) = Inr False"
    using refetch assms(8,9) by (simp add: comparePassword_def hidePassword_def bcryptCall_def)
  have l2: "login p now store2 b = (failure 401 ''Invalid credentials'', store2)"
    using t assms(1,3,6) cmp by (simp add: login_def Let_def)
  show ?thesis using l1 l2 by simp
qed

theorem login_same_failure_witness:
  "find (loginMatch ''nurseA'') [mitraB] = None
   \<and> find (loginMatch ''nurseA'') [nurseA, mitraB] = Some nurseA
   \<and> distinct (map oid [nurseA, mitraB])
   \<and> \<not> bcryptCompare samplePlatform ''wrongpass'' (password nurseA)
   \<and> login samplePlatform 5000 [mitraB]
        \<lparr>bodyIdentifier = Some (JStr ''nurseA''), bodyPassword = Some (JStr ''wrongpass'')\<rparr>
       = (failure 401 ''Invalid credentials'', [mitraB])
   \<and> login samplePlatform 5000 [nurseA, mitraB]
        \<lparr>bodyIdentifier = Some (JStr ''nurseA''), bodyPassword = Some (JStr ''wrongpass'')\<rparr>
       = (failure 401 ''Invalid credentials'', [nurseA, mitraB])"
proof -
  let ?b = "\<lparr>bodyIdentifier = Some (JStr ''nurseA''), bodyPassword = Some (JStr ''wrongpass'')\<rparr>"
  have a1: "bodyIdentifier ?b = Some (JStr ''nurseA'')" and a2: "''nurseA'' \<noteq> []"
    and a3: "bodyPassword ?b = Some (JStr ''wrongpass'')" and a4: "''wrongpass'' \<noteq> []"
    by simp_all
  have a5: "find (loginMatch ''nurseA'') [mitraB] = None" by code_simp
  have a6: "find (loginMatch ''nurseA'') [nurseA, mitraB] = Some nurseA" by code_simp
  have a7: "distinct (map oid [nurseA, mitraB])" by (simp add: nurseA_def mitraB_def)
  have a8: "password nurseA \<noteq> []" by (simp add: nurseA_def)
  have a9: "\<not> bcryptCompare samplePlatform ''wrongpass'' (password nurseA)"
    by (simp add: samplePlatform_def nurseA_def)
  show ?thesis
    using login_same_failure [OF a1 a2 a3 a4 a5 a6 a7 a8 a9, of 5000] a5 a6 a7 a9
    by simp
qed

section \<open>Revocation\<close>

lemma verifyToken_revoked:
  "requestToken req = Some tok \<Longrightarrow> tok \<noteq> [] \<Longrightarrow> isTokenBlacklisted tok st \<Longrightarrow>
   verifyToken jwtVerify st req = Respond (failure 401 ''Session expired. Please login again.'')"
  by (simp add: verifyToken_def)

lemma blacklist_add:
  "tokenBlacklist (addTokenToBlacklist jwtExp now tok st) = insert tok (tokenBlacklist st)"
  by (simp add: addTokenToBlacklist_def Let_def split: option.splits)

text \<open>
  Claim C3, as amended: in the auth router \<open>addTokenToBlacklist\<close> puts the token into
  the revocation set, \<open>verifyToken\<close> then answers 401 "Session expired. Please login
  again." for a request that carries that token, a request with another token that is
  not revoked and verifies is passed on, and the router's logout revokes the token of
  the request it accepted. The logout endpoint of server.js answers 200 and leaves the
  revocation set as it was.
\<close>

theorem revocation_in_auth_router:
  "isTokenBlacklisted tok (addTokenToBlacklist jwtExp now tok st)
   \<and> (requestToken req = Some tok \<and> tok \<noteq> []
        \<longrightarrow> verifyToken jwtVerify (addTokenToBlacklist jwtExp now tok st) req
              = Respond (failure 401 ''Session expired. Please login again.''))
   \<and> (requestToken req2 = Some tok2 \<and> tok2 \<noteq> [] \<and> tok2 \<noteq> tok \<and> \<not> isTokenBlacklisted tok2 st
        \<and> jwtVerify tok2 = Inr pl
        \<longrightarrow> verifyToken jwtVerify (addTokenToBlacklist jwtExp now tok st) req2
              = Next (req2\<lparr>user := payloadUser pl, token := Some tok2\<rparr>))
   \<and> (verifyToken jwtVerify st req = Next req'
        \<longrightarrow> (\<exists>t. requestToken req = Some t \<and> t \<noteq> []
                 \<and> authRouterLogout jwtVerify jwtExp now st req
                     = (loggedOut, addTokenToBlacklist jwtExp now t st)))
   \<and> serverLogout st req = (loggedOut, st)"
proof -
  have a: "isTokenBlacklisted tok (addTokenToBlacklist jwtExp now tok st)"
    by (simp add: isTokenBlacklisted_def blacklist_add)
  have b: "requestToken req = Some tok \<and> tok \<noteq> []
        \<longrightarrow> verifyToken jwtVerify (addTokenToBlacklist jwtExp now tok st) req
              = Respond (failure 401 ''Session expired. Please login again.'')"
    using a by (simp add: verifyToken_revoked)
  have c: "requestToken req2 = Some tok2 \<and> tok2 \<noteq> [] \<and> tok2 \<noteq> tok \<and> \<not> isTokenBlacklisted tok2 st
        \<and> jwtVerify tok2 = Inr pl
        \<longrightarrow> verifyToken jwtVerify (addTokenToBlacklist jwtExp now tok st) req2
              = Next (req2\<lparr>user := payloadUser pl, token := Some tok2\<rparr>)"
    by (simp add: verifyToken_def isTokenBlacklisted_def blacklist_add)
  have d: "verifyToken jwtVerify st req = Next req'
        \<longrightarrow> (\<exists>t. requestToken req = Some t \<and> t \<noteq> []
                 \<and> authRouterLogout jwtVerify jwtExp now st req
                     = (loggedOut, addTokenToBlacklist jwtExp now t st))"
    by (auto simp: verifyToken_def authRouterLogout_def stringOf_def
             split: option.splits if_splits sum.splits jwtError.splits)
  have e: "serverLogout st req = (loggedOut, st)"
    by (simp add: serverLogout_def)
  show ?thesis using a b c d e by blast
qed

theorem revocation_in_auth_router_witness:
  "requestToken (bearer ''hhhh.pppp.ssss'') = Some ''hhhh.pppp.ssss''
   \<and> verifyToken (sampleVerify (authRouterTokenPayload nurseA)) emptyAuthState (bearer ''hhhh.pppp.ssss'')
       = Next ((bearer ''hhhh.pppp.ssss'')\<lparr>user := payloadUser (authRouterTokenPayload nurseA),
                                            token := Some ''hhhh.pppp.ssss''\<rparr>)
   \<and> authRouterLogout (sampleVerify (authRouterTokenPayload nurseA)) (\<lambda>t. Some 86400) 5000 emptyAuthState
        (bearer ''hhhh.pppp.ssss'')
       = (loggedOut, addTokenToBlacklist (\<lambda>t. Some 86400) 5000 ''hhhh.pppp.ssss'' emptyAuthState)
   \<and> verifyToken (sampleVerify (authRouterTokenPayload nurseA))
        (addTokenToBlacklist (\<lambda>t. Some 86400) 5000 ''hhhh.pppp.ssss'' emptyAuthState)
        (bearer ''hhhh.pppp.ssss'')
       = Respond (failure 401 ''Session expired. Please login again.'')
   \<and> verifyToken (\<lambda>t. Inr (authRouterTokenPayload nurseA))
        (addTokenToBlacklist (\<lambda>t. Some 86400) 5000 ''hhhh.pppp.ssss'' emptyAuthState)
        (bearer ''hhhh.pppp.tttt'')
       = Next ((bearer ''hhhh.pppp.tttt'')\<lparr>user := payloadUser (authRouterTokenPayload nurseA),
                                            token := Some ''hhhh.pppp.tttt''\<rparr>)"
proof -
  have t1: "requestToken (bearer ''hhhh.pppp.ssss'') = Some ''hhhh.pppp.ssss''"
    by (simp add: requestToken_def bearer_def)
  have t2: "requestToken (bearer ''hhhh.pppp.tttt'') = Some ''hhhh.pppp.tttt''"
    by (simp add: requestToken_def bearer_def)
  have v: "verifyToken (sampleVerify (authRouterTokenPayload nurseA)) emptyAuthState (bearer ''hhhh.pppp.ssss'')
       = Next ((bearer ''hhhh.pppp.ssss'')\<lparr>user := payloadUser (authRouterTokenPayload nurseA),
                                            token := Some ''hhhh.pppp.ssss''\<rparr>)"
    by (simp add: verifyToken_def t1 isTokenBlacklisted_def emptyAuthState_def sampleVerify_def)
  have nb: "\<not> isTokenBlacklisted ''hhhh.pppp.tttt'' emptyAuthState"
    by (simp add: isTokenBlacklisted_def emptyAuthState_def)
  show ?thesis
    using revocation_in_auth_router [of "''hhhh.pppp.ssss''" "\<lambda>t. Some 86400" 5000 emptyAuthState
            "bearer ''hhhh.pppp.ssss''" "sampleVerify (authRouterTokenPayload nurseA)"
            "bearer ''hhhh.pppp.tttt''" "''hhhh.pppp.tttt''" "authRouterTokenPayload nurseA"
            "(bearer ''hhhh.pppp.ssss'')\<lparr>user := payloadUser (authRouterTokenPayload nurseA),
                                            token := Some ''hhhh.pppp.ssss''\<rparr>"]
          revocation_in_auth_router [of "''hhhh.pppp.ssss''" "\<lambda>t. Some 86400" 5000 emptyAuthState
            "bearer ''hhhh.pppp.ssss''" "\<lambda>t. Inr (authRouterTokenPayload nurseA)"
            "bearer ''hhhh.pppp.tttt''" "''hhhh.pppp.tttt''" "authRouterTokenPayload nurseA"]
          t1 t2 v nb
    by auto
qed

text \<open>
  Claim C3 as stated fails at the logout it cites: after \<open>serverLogout\<close> the revocation
  set is still empty, and both \<open>verifyToken\<close> and \<open>authenticateToken\<close> accept the token
  that was logged out.
\<close>

theorem serverLogout_counterexample:
  "serverLogout emptyAuthState (bearer ''hhhh.pppp.ssss'') = (loggedOut, emptyAuthState)
   \<and> status loggedOut = 200
   \<and> verifyToken (sampleVerify (authRouterTokenPayload nurseA))
        (snd (serverLogout emptyAuthState (bearer ''hhhh.pppp.ssss''))) (bearer ''hhhh.pppp.ssss'')
       = Next ((bearer ''hhhh.pppp.ssss'')\<lparr>user := payloadUser (authRouterTokenPayload nurseA),
                                            token := Some ''hhhh.pppp.ssss''\<rparr>)
   \<and> authenticateToken (sampleVerify (authRouterTokenPayload nurseA)) (bearer ''hhhh.pppp.ssss'')
       = Next ((bearer ''hhhh.pppp.ssss'')\<lparr>user := payloadUser (authRouterTokenPayload nurseA)\<rparr>)"
  by code_simp

section \<open>The token a login issues\<close>

lemma status_loginError: "status (loginError p msg) = 500"
  by (simp add: loginError_def failure_def)

text \<open>
  Claim C2 says that the token of a successful login embeds the identity claims, the
  role among them, and is accepted by \<open>authenticateToken\<close>. Every successful \<open>login\<close>
  signs \<open>serverTokenPayload\<close>, which holds the user's \<^verbatim>\<open>_id\<close> as \<^verbatim>\<open>userId\<close> and neither a
  nested \<^verbatim>\<open>user\<close> nor a role; \<open>authenticateToken\<close> answers 403 to any request whose
  token decodes to it. The payload that the registration builds and does not sign
  (\<open>registerTokenPayload\<close>) would be accepted.
\<close>

theorem login_token_without_role:
  assumes "login p now store b = (resp, store')" and "status resp = 200"
  shows "\<exists>d saved. find (loginMatch (jsonString (bodyIdentifier b))) store = Some d
           \<and> resp = loginSuccess saved (jwtSign p (serverTokenPayload (hidePassword d)) (stringOf (jwtSecret p)))
           \<and> payloadUser (serverTokenPayload (hidePassword d)) = None
           \<and> claimRole (payloadFlat (serverTokenPayload (hidePassword d))) = None
           \<and> (\<forall>jwtVerify req tok.
                 headerToken (authorization req) = Some tok \<and> tok \<noteq> []
                 \<and> jwtVerify tok = Inr (serverTokenPayload (hidePassword d))
                 \<longrightarrow> authenticateToken jwtVerify req = Respond (failure 403 ''Invalid or expired token''))"
proof -
  from assms obtain d saved where
      d: "find (loginMatch (jsonString (bodyIdentifier b))) store = Some d"
    and r: "resp = loginSuccess saved (jwtSign p (serverTokenPayload (hidePassword d)) (stringOf (jwtSecret p)))"
    by (auto simp: login_def Let_def failure_def status_loginError jsonString_def
             split: if_splits option.splits sum.splits prod.splits json.splits)
  have n1: "payloadUser (serverTokenPayload (hidePassword d)) = None"
    and n2: "claimRole (payloadFlat (serverTokenPayload (hidePassword d))) = None"
    by (simp_all add: serverTokenPayload_def noClaims_def)
  have rej: "\<forall>jwtVerify req tok.
                 headerToken (authorization req) = Some tok \<and> tok \<noteq> []
                 \<and> jwtVerify tok = Inr (serverTokenPayload (hidePassword d))
                 \<longrightarrow> authenticateToken jwtVerify req = Respond (failure 403 ''Invalid or expired token'')"
    using n1 n2 by (auto simp: authenticateToken_def truthy_def)
  show ?thesis using d r n1 n2 rej by blast
qed

theorem login_token_without_role_witness:
  "login samplePlatform 5000 [nurseA]
       \<lparr>bodyIdentifier = Some (JStr ''nurseA''), bodyPassword = Some (JStr ''secret123'')\<rparr>
     = (loginSuccess (hidePassword (nurseA\<lparr>lastLogin := Some 5000, updatedAt := 5000\<rparr>)) ''hhhh.pppp.ssss'',
        [nurseA\<lparr>lastLogin := Some 5000, updatedAt := 5000\<rparr>])
   \<and> jwtSign samplePlatform (serverTokenPayload (hidePassword nurseA)) ''s3cret'' = ''hhhh.pppp.ssss''
   \<and> authenticateToken (sampleVerify (serverTokenPayload (hidePassword nurseA))) (bearer ''hhhh.pppp.ssss'')
       = Respond (failure 403 ''Invalid or expired token'')
   \<and> authenticateToken (sampleVerify (registerTokenPayload nurseA)) (bearer ''hhhh.pppp.ssss'')
       = Next ((bearer ''hhhh.pppp.ssss'')\<lparr>user := Some (claimsOf nurseA)\<rparr>)"
proof -
  let ?b = "\<lparr>bodyIdentifier = Some (JStr ''nurseA''), bodyPassword = Some (JStr ''secret123'')\<rparr>"
  have run: "login samplePlatform 5000 [nurseA] ?b
     = (loginSuccess (hidePassword (nurseA\<lparr>lastLogin := Some 5000, updatedAt := 5000\<rparr>)) ''hhhh.pppp.ssss'',
        [nurseA\<lparr>lastLogin := Some 5000, updatedAt := 5000\<rparr>])"
    by code_simp
  have st: "status (loginSuccess (hidePassword (nurseA\<lparr>lastLogin := Some 5000, updatedAt := 5000\<rparr>)) ''hhhh.pppp.ssss'') = 200"
    by (simp add: loginSuccess_def)
  have f: "find (loginMatch (jsonString (bodyIdentifier ?b))) [nurseA] = Some nurseA" by code_simp
  have h: "headerToken (authorization (bearer ''hhhh.pppp.ssss'')) = Some ''hhhh.pppp.ssss''"
    by (simp add: headerToken_def bearer_def)
  have s: "jwtSign samplePlatform (serverTokenPayload (hidePassword nurseA)) ''s3cret'' = ''hhhh.pppp.ssss''"
    by (simp add: samplePlatform_def)
  have v: "sampleVerify (serverTokenPayload (hidePassword nurseA)) ''hhhh.pppp.ssss''
             = Inr (serverTokenPayload (hidePassword nurseA))"
    by (simp add: sampleVerify_def)
  have sib: "authenticateToken (sampleVerify (registerTokenPayload nurseA)) (bearer ''hhhh.pppp.ssss'')
       = Next ((bearer ''hhhh.pppp.ssss'')\<lparr>user := Some (claimsOf nurseA)\<rparr>)"
    by (simp add: authenticateToken_def h sampleVerify_def registerTokenPayload_def claimsOf_def
          truthy_def nurseA_def)
  from login_token_without_role [OF run st] f
  have "\<forall>jwtVerify req tok.
          headerToken (authorization req) = Some tok \<and> tok \<noteq> []
          \<and> jwtVerify tok = Inr (serverTokenPayload (hidePassword nurseA))
          \<longrightarrow> authenticateToken jwtVerify req = Respond (failure 403 ''Invalid or expired token'')"
    by auto
  with h v have "authenticateToken (sampleVerify (serverTokenPayload (hidePassword nurseA))) (bearer ''hhhh.pppp.ssss'')
       = Respond (failure 403 ''Invalid or expired token'')"
    by auto
  with run s sib show ?thesis by (simp only: simp_thms)
qed

end
